theory Spec2Isabelle
  imports Main
begin

section \<open>Errors\<close>

text \<open>
  Go error values.  The first four constructors are the sentinels of
  \<^verbatim>\<open>services/errors.go\<close>, the next four those of \<^verbatim>\<open>repositories/errors.go\<close>.
  \<open>ErrNoRows\<close> is \<^verbatim>\<open>pgx.ErrNoRows\<close>, \<open>DeadlineExceeded\<close> is
  \<^verbatim>\<open>context.DeadlineExceeded\<close>, \<open>PgError code message\<close> is a \<^verbatim>\<open>*pgconn.PgError\<close>.
  \<open>ErrorsNew text\<close> is an error without a wrapped cause (\<^verbatim>\<open>errors.New\<close>, or
  \<^verbatim>\<open>fmt.Errorf\<close> without \<^verbatim>\<open>%w\<close>).  \<open>Errorf pre e post\<close> is \<^verbatim>\<open>fmt.Errorf\<close> with one
  \<^verbatim>\<open>%w\<close> verb: it wraps \<open>e\<close>, the text before the verb is \<open>pre\<close> and the (already
  formatted) text after it is \<open>post\<close>.
\<close>

datatype go_error =
    ErrNotFound
  | ErrInvalidInput
  | ErrPermissionDenied
  | ErrConflict
  | ErrBookNotFound
  | ErrDuplicateISBN
  | ErrInvalidData
  | ErrInvalidReference
  | ErrNoRows
  | DeadlineExceeded
  | PgError string string
  | ErrorsNew string
  | Errorf string go_error string

text \<open>The method \<^verbatim>\<open>Error()\<close>: the text of an error.\<close>

fun err_Error :: "go_error \<Rightarrow> string" where
  "err_Error ErrNotFound = ''not found''"
| "err_Error ErrInvalidInput = ''invalid input''"
| "err_Error ErrPermissionDenied = ''permission denied''"
| "err_Error ErrConflict = ''conflict''"
| "err_Error ErrBookNotFound = ''book not found''"
| "err_Error ErrDuplicateISBN = ''isbn already exists''"
| "err_Error ErrInvalidData = ''invalid book data''"
| "err_Error ErrInvalidReference =
     ''invalid reference: the referenced record does not exist''"
| "err_Error ErrNoRows = ''no rows in result set''"
| "err_Error DeadlineExceeded = ''context deadline exceeded''"
| "err_Error (PgError code message) =
     ''ERROR: '' @ message @ '' (SQLSTATE '' @ code @ '')''"
| "err_Error (ErrorsNew text) = text"
| "err_Error (Errorf pre e post) = pre @ err_Error e @ post"

text \<open>
  \<^verbatim>\<open>errors.Is(err, target)\<close>: \<open>target\<close> is \<open>err\<close> itself or is reached by unwrapping.
\<close>

fun errors_Is :: "go_error \<Rightarrow> go_error \<Rightarrow> bool" where
  "errors_Is (Errorf pre e post) target =
     (if Errorf pre e post = target then True else errors_Is e target)"
| "errors_Is e target = (e = target)"

text \<open>
  \<^verbatim>\<open>errors.As(err, &pgErr)\<close> for a \<^verbatim>\<open>*pgconn.PgError\<close> target: the code and message
  of the first \<open>PgError\<close> of the chain.
\<close>

fun errors_As_PgError :: "go_error \<Rightarrow> (string \<times> string) option" where
  "errors_As_PgError (PgError code message) = Some (code, message)"
| "errors_As_PgError (Errorf pre e post) = errors_As_PgError e"
| "errors_As_PgError e = None"

text \<open>The chain of an error: the error and everything \<^verbatim>\<open>Unwrap\<close> reaches from it.\<close>

fun chain :: "go_error \<Rightarrow> go_error list" where
  "chain (Errorf pre e post) = Errorf pre e post # chain e"
| "chain e = [e]"

section \<open>Models (\<^verbatim>\<open>models/books.go\<close>)\<close>

text \<open>
  Go's \<^verbatim>\<open>int\<close> is a 64-bit integer; the fields below are only compared and copied,
  so they are integers here, and the one multiplication of the program writes its
  wrap-around out (\<open>wrap64\<close>).  A \<^verbatim>\<open>time.Time\<close> is a number of ticks, \<open>0\<close> the zero time.
\<close>

record Book =
  ID :: int
  Title :: string
  Author :: string
  Published :: string
  ISBN :: string
  Pages :: int
  CreatedAt :: nat
  UpdatedAt :: nat

record BookCreateRequest =
  cr_Title :: string
  cr_Author :: string
  cr_Published :: string
  cr_ISBN :: string
  cr_Pages :: int

record BookUpdateRequest =
  ur_Title :: string
  ur_Author :: string
  ur_Published :: string
  ur_ISBN :: string
  ur_Pages :: int

text \<open>\<^verbatim>\<open>var book models.Book\<close>: every field at its zero value.\<close>

definition zero_Book :: Book where
  "zero_Book = \<lparr>ID = 0, Title = [], Author = [], Published = [], ISBN = [],
     Pages = 0, CreatedAt = 0, UpdatedAt = 0\<rparr>"

section \<open>The repository interface (\<^verbatim>\<open>repositories/book_repository.go\<close>)\<close>

text \<open>
  The interface \<^verbatim>\<open>BookRepository\<close>, over a store of type \<open>'s\<close> that every method
  takes and returns.  A method that gets a \<^verbatim>\<open>*models.Book\<close> and writes to it returns
  the book as it left it.
\<close>

record 's BookRepository =
  CreateBook :: "Book \<Rightarrow> 's \<Rightarrow> (go_error option \<times> Book) \<times> 's"
  GetByBookID :: "int \<Rightarrow> 's \<Rightarrow> (go_error + Book) \<times> 's"
  FetchAllBook :: "int \<Rightarrow> int \<Rightarrow> 's \<Rightarrow> (go_error + Book list \<times> int) \<times> 's"
  UpdateBook :: "Book \<Rightarrow> 's \<Rightarrow> (go_error option \<times> Book) \<times> 's"
  DeleteBook :: "int \<Rightarrow> 's \<Rightarrow> go_error option \<times> 's"

section \<open>The service (\<^verbatim>\<open>services/book_service.go\<close>)\<close>

definition validateBookCreateRequest :: "BookCreateRequest \<Rightarrow> go_error option" where
  "validateBookCreateRequest req =
     (if cr_Title req = [] then Some (ErrorsNew ''title is required'')
      else if int (length (cr_Title req)) > 200 then Some (ErrorsNew ''title too long'')
      else None)"

definition validateBookUpdateRequest :: "BookUpdateRequest \<Rightarrow> go_error option" where
  "validateBookUpdateRequest req =
     (if ur_Title req \<noteq> [] \<and> int (length (ur_Title req)) > 200
      then Some (ErrorsNew ''title too long'')
      else None)"

definition BookService_CreateBook ::
  "'s BookRepository \<Rightarrow> BookCreateRequest \<Rightarrow> 's \<Rightarrow> (go_error + Book) \<times> 's" where
  "BookService_CreateBook repo req s =
     (case validateBookCreateRequest req of
        Some err \<Rightarrow> (Inl (Errorf [] ErrInvalidInput ('': '' @ err_Error err)), s)
      | None \<Rightarrow>
          (let book = \<lparr>ID = 0, Title = cr_Title req, Author = cr_Author req,
                        Published = cr_Published req, ISBN = cr_ISBN req,
                        Pages = cr_Pages req, CreatedAt = 0, UpdatedAt = 0\<rparr>
           in if Pages book < 5
              then (Inl (Errorf [] ErrInvalidInput '': book must have atleast 5 pages''), s)
              else (case CreateBook repo book s of
                      ((Some err, book'), s') \<Rightarrow>
                        (Inl (Errorf ''repository error: '' err []), s')
                    | ((None, book'), s') \<Rightarrow> (Inr book', s'))))"

definition BookService_GetByBookID ::
  "'s BookRepository \<Rightarrow> int \<Rightarrow> 's \<Rightarrow> (go_error + Book) \<times> 's" where
  "BookService_GetByBookID repo bid s =
     (if bid \<le> 0 then (Inl (Errorf [] ErrInvalidData '': invalid book ID''), s)
      else (case GetByBookID repo bid s of
              (Inl err, s') \<Rightarrow>
                (if errors_Is err ErrBookNotFound then (Inl ErrNotFound, s')
                 else (Inl (Errorf ''repository error: '' err []), s'))
            | (Inr book, s') \<Rightarrow> (Inr book, s')))"

definition BookService_FetchAllBook ::
  "'s BookRepository \<Rightarrow> int \<Rightarrow> int \<Rightarrow> 's \<Rightarrow> (go_error + Book list \<times> int) \<times> 's" where
  "BookService_FetchAllBook repo page pageSize s =
     (let page = (if page < 1 then 1 else page);
          pageSize = (if pageSize < 1 \<or> pageSize > 100 then 20 else pageSize)
      in case FetchAllBook repo page pageSize s of
           (Inl err, s') \<Rightarrow> (Inl (Errorf ''repository error: '' err []), s')
         | (Inr (books, count), s') \<Rightarrow> (Inr (books, count), s'))"

definition BookService_UpdateBook ::
  "'s BookRepository \<Rightarrow> int \<Rightarrow> BookUpdateRequest \<Rightarrow> 's \<Rightarrow> (go_error + Book) \<times> 's" where
  "BookService_UpdateBook repo bid req s =
     (if bid \<le> 0 then (Inl (Errorf [] ErrInvalidInput '': invalid book ID''), s)
      else (case validateBookUpdateRequest req of
              Some err \<Rightarrow> (Inl (Errorf [] ErrInvalidInput ('': '' @ err_Error err)), s)
            | None \<Rightarrow>
                (case GetByBookID repo bid s of
                   (Inl err, s') \<Rightarrow>
                     (if errors_Is err ErrBookNotFound then (Inl ErrNotFound, s')
                      else (Inl (Errorf ''repository error: '' err []), s'))
                 | (Inr book, s') \<Rightarrow>
                     (let book = (if ur_Title req \<noteq> [] then book\<lparr>Title := ur_Title req\<rparr>
                                  else book);
                          book = (if ur_Author req \<noteq> [] then book\<lparr>Author := ur_Author req\<rparr>
                                  else book);
                          book = (if ur_ISBN req \<noteq> [] then book\<lparr>ISBN := ur_ISBN req\<rparr>
                                  else book);
                          book = (if ur_Pages req \<le> 0 then book\<lparr>Pages := ur_Pages req\<rparr>
                                  else book)
                      in case UpdateBook repo book s' of
                           ((Some err, book'), s'') \<Rightarrow>
                             (Inl (Errorf ''repository error: '' err []), s'')
                         | ((None, book'), s'') \<Rightarrow> (Inr book', s'')))))"

definition BookService_DeleteBook ::
  "'s BookRepository \<Rightarrow> int \<Rightarrow> 's \<Rightarrow> go_error option \<times> 's" where
  "BookService_DeleteBook repo bid s =
     (if bid \<le> 0 then (Some (Errorf [] ErrInvalidInput '': invalid book ID''), s)
      else (case GetByBookID repo bid s of
              (Inl err, s') \<Rightarrow>
                (if errors_Is err ErrBookNotFound then (Some ErrNotFound, s')
                 else (Some (Errorf ''repository error: '' err []), s'))
            | (Inr book, s') \<Rightarrow>
                (case DeleteBook repo bid s' of
                   (Some err, s'') \<Rightarrow> (Some (Errorf ''repository error: '' err []), s'')
                 | (None, s'') \<Rightarrow> (None, s''))))"

section \<open>The store\<close>

subsection \<open>Calendar dates\<close>

text \<open>
  Modelled from the spec: the column \<open>published\<close> of the table \<open>books\<close> (the schema is
  not under \<^verbatim>\<open>src/\<close>) holds a calendar date; \<^verbatim>\<open>BookRepository.GetByBookID\<close> reads it
  into a \<^verbatim>\<open>time.Time\<close>.  A date is a year, a month and a day.  \<open>date_in\<close> is the store's
  reading of the text the program sends for the column: a four-digit year from 0001, a
  month and a day of one or two digits, separated by \<open>-\<close>, the day within the month.
\<close>

type_synonym date = "nat \<times> nat \<times> nat"

text \<open>The decimal digits are the characters with the codes 48 to 57.\<close>

definition digit_of :: "char \<Rightarrow> nat option" where
  "digit_of c =
     (let code = (of_char c :: nat)
      in if 48 \<le> code \<and> code \<le> 57 then Some (code - 48) else None)"

fun number_of :: "nat \<Rightarrow> string \<Rightarrow> nat option" where
  "number_of acc [] = Some acc"
| "number_of acc (c # cs) =
     (case digit_of c of None \<Rightarrow> None | Some d \<Rightarrow> number_of (10 * acc + d) cs)"

fun split_on :: "char \<Rightarrow> string \<Rightarrow> string list" where
  "split_on sep [] = [[]]"
| "split_on sep (c # cs) =
     (if c = sep then [] # split_on sep cs
      else (case split_on sep cs of [] \<Rightarrow> [[c]] | w # ws \<Rightarrow> (c # w) # ws))"

definition leap_year :: "nat \<Rightarrow> bool" where
  "leap_year y = (y mod 4 = 0 \<and> (y mod 100 \<noteq> 0 \<or> y mod 400 = 0))"

definition days_in_month :: "nat \<Rightarrow> nat \<Rightarrow> nat" where
  "days_in_month y m =
     (if m = 2 then (if leap_year y then 29 else 28)
      else if m = 4 \<or> m = 6 \<or> m = 9 \<or> m = 11 then 30
      else 31)"

definition date_in :: "string \<Rightarrow> date option" where
  "date_in s =
     (case split_on CHR ''-'' s of
        [ys, ms, ds] \<Rightarrow>
          (if length ys = 4 \<and> 1 \<le> length ms \<and> length ms \<le> 2
               \<and> 1 \<le> length ds \<and> length ds \<le> 2
           then (case (number_of 0 ys, number_of 0 ms, number_of 0 ds) of
                   (Some y, Some m, Some d) \<Rightarrow>
                     (if 1 \<le> y \<and> 1 \<le> m \<and> m \<le> 12 \<and> 1 \<le> d \<and> d \<le> days_in_month y m
                      then Some (y, m, d) else None)
                 | _ \<Rightarrow> None)
           else None)
      | _ \<Rightarrow> None)"

text \<open>
  \<^verbatim>\<open>pubDate.Format("2006-01-02")\<close>, for the years \<open>date_in\<close> yields: the year with four
  digits, the month and the day with two.
\<close>

definition digit_char :: "nat \<Rightarrow> char" where
  "digit_char n = ''0123456789'' ! (n mod 10)"

definition Format_2006_01_02 :: "date \<Rightarrow> string" where
  "Format_2006_01_02 dt =
     (case dt of (y, m, d) \<Rightarrow>
        [digit_char (y div 1000), digit_char (y div 100), digit_char (y div 10),
         digit_char y, CHR ''-'', digit_char (m div 10), digit_char m, CHR ''-'',
         digit_char (d div 10), digit_char d])"

subsection \<open>The table\<close>

text \<open>
  Modelled from the spec: the table \<open>books\<close>, whose schema is not under \<^verbatim>\<open>src/\<close>
  (spec, sections 3 and 6): one row per book with the columns the statements of the
  repository name, a nullable \<open>deleted_at\<close>, ids drawn from a sequence, and a unique
  index on \<open>isbn\<close> over the rows whose \<open>deleted_at\<close> is null.  \<open>rows_of\<close> lists the rows
  in insertion order.  \<open>clock\<close> is the time, which every round trip to the store
  advances; \<open>faults\<close> scripts the store's availability: each round trip takes the head,
  and \<open>Some e\<close> makes it fail with \<open>e\<close> (a lost connection, an expired deadline, any
  error of the server), the empty list being a store that answers.
\<close>

record book_row =
  row_id :: int
  title :: string
  author :: string
  published :: date
  isbn :: string
  pages :: int
  created_at :: nat
  updated_at :: nat
  deleted_at :: "nat option"

record database =
  rows_of :: "book_row list"
  books_id_seq :: int
  clock :: nat
  faults :: "go_error option list"

definition round_trip :: "database \<Rightarrow> go_error option \<times> database" where
  "round_trip db =
     (case faults db of
        [] \<Rightarrow> (None, db\<lparr>clock := clock db + 1\<rparr>)
      | f # fs \<Rightarrow> (f, db\<lparr>clock := clock db + 1, faults := fs\<rparr>))"

definition live :: "book_row \<Rightarrow> bool" where
  "live r = (deleted_at r = None)"

text \<open>
  \<^verbatim>\<open>QueryRow(...).Scan(...)\<close>: the error of the statement, \<^verbatim>\<open>pgx.ErrNoRows\<close> when it
  returned no row, its first row otherwise.
\<close>

definition QueryRow_Scan :: "go_error + 'a list \<Rightarrow> go_error + 'a" where
  "QueryRow_Scan res =
     (case res of Inl e \<Rightarrow> Inl e | Inr [] \<Rightarrow> Inl ErrNoRows | Inr (x # xs) \<Rightarrow> Inr x)"

subsection \<open>The statements\<close>

text \<open>
  \<^verbatim>\<open>INSERT INTO books (...) VALUES ($1, $2, $3, $4, $5, NOW(), NOW())
  RETURNING id, created_at, updated_at\<close>.  The id is drawn from the sequence before the
  unique index is checked, so a rejected insert uses an id up.
\<close>

definition insert_book ::
  "string \<Rightarrow> string \<Rightarrow> string \<Rightarrow> string \<Rightarrow> int \<Rightarrow> database
     \<Rightarrow> (go_error + (int \<times> nat \<times> nat) list) \<times> database" where
  "insert_book t a p i n db =
     (case round_trip db of
        (Some e, db') \<Rightarrow> (Inl e, db')
      | (None, db') \<Rightarrow>
          (case date_in p of
             None \<Rightarrow> (Inl (PgError ''22007'' ''invalid input syntax for type date''), db')
           | Some d \<Rightarrow>
               (let new_id = books_id_seq db' + 1;
                    db'' = db'\<lparr>books_id_seq := new_id\<rparr>
                in if list_ex (\<lambda>r. live r \<and> isbn r = i) (rows_of db')
                   then (Inl (PgError ''23505''
                           ''duplicate key value violates unique constraint''), db'')
                   else (Inr [(new_id, clock db', clock db')],
                         db''\<lparr>rows_of := rows_of db' @
                           [\<lparr>row_id = new_id, title = t, author = a, published = d,
                             isbn = i, pages = n, created_at = clock db',
                             updated_at = clock db', deleted_at = None\<rparr>]\<rparr>))))"

text \<open>
  \<^verbatim>\<open>SELECT id, title, author, published, isbn, pages, created_at, updated_at FROM books
  WHERE id = $1\<close>, and with \<open>live_only\<close> the same with \<^verbatim>\<open>AND deleted_at IS NULL\<close>.
\<close>

definition select_book_by_id ::
  "bool \<Rightarrow> int \<Rightarrow> database \<Rightarrow> (go_error + book_row list) \<times> database" where
  "select_book_by_id live_only bid db =
     (case round_trip db of
        (Some e, db') \<Rightarrow> (Inl e, db')
      | (None, db') \<Rightarrow>
          (Inr (filter (\<lambda>r. row_id r = bid \<and> (if live_only then live r else True))
                  (rows_of db')), db'))"

text \<open>
  \<^verbatim>\<open>SELECT COUNT(*) FROM books\<close>, and with \<open>live_only\<close> the same with
  \<^verbatim>\<open>WHERE deleted_at IS NULL\<close>.
\<close>

definition count_books :: "bool \<Rightarrow> database \<Rightarrow> (go_error + int list) \<times> database" where
  "count_books live_only db =
     (case round_trip db of
        (Some e, db') \<Rightarrow> (Inl e, db')
      | (None, db') \<Rightarrow>
          (Inr [int (length (filter (\<lambda>r. if live_only then live r else True) (rows_of db')))],
           db'))"

text \<open>
  \<^verbatim>\<open>SELECT ... FROM books ORDER BY created_at DESC LIMIT $1 OFFSET $2\<close>, and with
  \<open>live_only\<close> the same with \<^verbatim>\<open>WHERE deleted_at IS NULL\<close>, run by \<^verbatim>\<open>Query\<close>.  Rows of one
  \<open>created_at\<close> keep their insertion order (spec, 4.1).  The result is the error of
  \<^verbatim>\<open>Query\<close>, or the rows that \<^verbatim>\<open>rows.Next\<close> yields with the error that \<^verbatim>\<open>rows.Err\<close>
  reports after them: a negative limit or offset is an error of the server, found when
  the rows are read.
\<close>

definition select_books_page ::
  "bool \<Rightarrow> int \<Rightarrow> int \<Rightarrow> database
     \<Rightarrow> (go_error + book_row list \<times> go_error option) \<times> database" where
  "select_books_page live_only lim off db =
     (case round_trip db of
        (Some e, db') \<Rightarrow> (Inl e, db')
      | (None, db') \<Rightarrow>
          (if lim < 0
           then (Inr ([], Some (PgError ''2201W'' ''LIMIT must not be negative'')), db')
           else if off < 0
           then (Inr ([], Some (PgError ''2201X'' ''OFFSET must not be negative'')), db')
           else (Inr (take (nat lim) (drop (nat off)
                   (sort_key (\<lambda>r. - int (created_at r))
                      (filter (\<lambda>r. if live_only then live r else True) (rows_of db')))),
                 None), db')))"

text \<open>
  \<^verbatim>\<open>UPDATE books SET title = $1, author = $2, published = $3, isbn = $4, pages = $5,
  updated_at = NOW() WHERE id = $6 RETURNING updated_at\<close>, and with \<open>live_only\<close> the same
  with \<^verbatim>\<open>AND deleted_at IS NULL\<close>.
\<close>

definition update_book ::
  "bool \<Rightarrow> string \<Rightarrow> string \<Rightarrow> string \<Rightarrow> string \<Rightarrow> int \<Rightarrow> int \<Rightarrow> database
     \<Rightarrow> (go_error + nat list) \<times> database" where
  "update_book live_only t a p i n bid db =
     (case round_trip db of
        (Some e, db') \<Rightarrow> (Inl e, db')
      | (None, db') \<Rightarrow>
          (case date_in p of
             None \<Rightarrow> (Inl (PgError ''22007'' ''invalid input syntax for type date''), db')
           | Some d \<Rightarrow>
               (let hit = (\<lambda>r. row_id r = bid \<and> (if live_only then live r else True))
                in if list_ex (\<lambda>r. hit r \<and> live r) (rows_of db') \<and>
                      list_ex (\<lambda>r. \<not> hit r \<and> live r \<and> isbn r = i) (rows_of db')
                   then (Inl (PgError ''23505''
                           ''duplicate key value violates unique constraint''), db')
                   else (Inr (map (\<lambda>r. clock db') (filter hit (rows_of db'))),
                         db'\<lparr>rows_of := map (\<lambda>r. if hit r
                                 then r\<lparr>title := t, author := a, published := d, isbn := i,
                                        pages := n, updated_at := clock db'\<rparr>
                                 else r) (rows_of db')\<rparr>))))"

text \<open>\<^verbatim>\<open>DELETE FROM books WHERE id = $1\<close>; the result is the number of rows affected.\<close>

definition delete_book :: "int \<Rightarrow> database \<Rightarrow> (go_error + int) \<times> database" where
  "delete_book bid db =
     (case round_trip db of
        (Some e, db') \<Rightarrow> (Inl e, db')
      | (None, db') \<Rightarrow>
          (Inr (int (length (filter (\<lambda>r. row_id r = bid) (rows_of db')))),
           db'\<lparr>rows_of := filter (\<lambda>r. row_id r \<noteq> bid) (rows_of db')\<rparr>))"

text \<open>
  \<^verbatim>\<open>UPDATE books SET deleted_at = NOW() WHERE id = $1 AND deleted_at IS NULL\<close>.  The
  statement has no \<^verbatim>\<open>RETURNING\<close> clause: it returns no row.
\<close>

definition mark_book_deleted ::
  "int \<Rightarrow> database \<Rightarrow> (go_error + int list) \<times> database" where
  "mark_book_deleted bid db =
     (case round_trip db of
        (Some e, db') \<Rightarrow> (Inl e, db')
      | (None, db') \<Rightarrow>
          (Inr [],
           db'\<lparr>rows_of := map (\<lambda>r. if row_id r = bid \<and> live r
                                 then r\<lparr>deleted_at := Some (clock db')\<rparr> else r)
                            (rows_of db')\<rparr>))"

text \<open>
  Transactions.  \<^verbatim>\<open>pool.Begin\<close> keeps the rows as they are; \<^verbatim>\<open>tx.Rollback\<close> puts them
  back, whatever the store answers; \<^verbatim>\<open>tx.Commit\<close> keeps the rows as the statements of
  the transaction left them.
\<close>

definition pool_Begin :: "database \<Rightarrow> (go_error + book_row list) \<times> database" where
  "pool_Begin db =
     (case round_trip db of
        (Some e, db') \<Rightarrow> (Inl e, db')
      | (None, db') \<Rightarrow> (Inr (rows_of db'), db'))"

definition tx_Rollback :: "book_row list \<Rightarrow> database \<Rightarrow> database" where
  "tx_Rollback tx db = (snd (round_trip db))\<lparr>rows_of := tx\<rparr>"

definition tx_Commit :: "book_row list \<Rightarrow> database \<Rightarrow> go_error option \<times> database" where
  "tx_Commit tx db = round_trip db"

section \<open>The repository (\<^verbatim>\<open>infrastructure/db/postgres/book_repository.go\<close>)\<close>

definition wrap64 :: "int \<Rightarrow> int" where
  "wrap64 x = (x + 2 ^ 63) mod 2 ^ 64 - 2 ^ 63"

definition BookRepository_CreateBook ::
  "Book \<Rightarrow> database \<Rightarrow> (go_error option \<times> Book) \<times> database" where
  "BookRepository_CreateBook book db =
     (case insert_book (Title book) (Author book) (Published book) (ISBN book)
             (Pages book) db of
        (res, db') \<Rightarrow>
          (case QueryRow_Scan res of
             Inr (new_id, c, u) \<Rightarrow>
               ((None, book\<lparr>ID := new_id, CreatedAt := c, UpdatedAt := u\<rparr>), db')
           | Inl err \<Rightarrow>
               (case errors_As_PgError err of
                  Some (code, message) \<Rightarrow>
                    (if code = ''23505'' then ((Some ErrDuplicateISBN, book), db')
                     else if code = ''23503''
                     then ((Some (Errorf [] ErrInvalidReference ('': '' @ message)), book),
                           db')
                     else ((Some (Errorf ''failed to create book: '' err []), book), db'))
                | None \<Rightarrow>
                    ((Some (Errorf ''failed to create book: '' err []), book), db'))))"

text \<open>
  \<^verbatim>\<open>Scan\<close> of a row of the select list into a book, the date through
  \<^verbatim>\<open>pubDate.Format("2006-01-02")\<close>.
\<close>

definition rows_Scan :: "book_row \<Rightarrow> go_error + Book" where
  "rows_Scan r =
     Inr \<lparr>ID = row_id r, Title = title r, Author = author r,
          Published = Format_2006_01_02 (published r), ISBN = isbn r, Pages = pages r,
          CreatedAt = created_at r, UpdatedAt = updated_at r\<rparr>"

definition BookRepository_GetByBookID ::
  "int \<Rightarrow> database \<Rightarrow> (go_error + Book) \<times> database" where
  "BookRepository_GetByBookID bid db =
     (case select_book_by_id False bid db of
        (res, db') \<Rightarrow>
          (case QueryRow_Scan res of
             Inl err \<Rightarrow>
               (if errors_Is err ErrNoRows then (Inl ErrBookNotFound, db')
                else (Inl (Errorf ''failed to get book: '' err []), db'))
           | Inr r \<Rightarrow>
               (case rows_Scan r of
                  Inl err \<Rightarrow>
                    (if errors_Is err ErrNoRows then (Inl ErrBookNotFound, db')
                     else (Inl (Errorf ''failed to get book: '' err []), db'))
                | Inr book \<Rightarrow> (Inr book, db'))))"

text \<open>The loop \<^verbatim>\<open>for rows.Next() { ... books = append(books, &book) }\<close>.\<close>

fun scan_books :: "book_row list \<Rightarrow> Book list \<Rightarrow> go_error + Book list" where
  "scan_books [] books = Inr books"
| "scan_books (r # rs) books =
     (case rows_Scan r of
        Inl err \<Rightarrow> Inl (Errorf ''failed to scan book: '' err [])
      | Inr book \<Rightarrow> scan_books rs (books @ [book]))"

definition BookRepository_FetchAllBook ::
  "int \<Rightarrow> int \<Rightarrow> database \<Rightarrow> (go_error + Book list \<times> int) \<times> database" where
  "BookRepository_FetchAllBook page pageSize db =
     (case count_books False db of
        (res, db1) \<Rightarrow>
          (case QueryRow_Scan res of
             Inl err \<Rightarrow> (Inl (ErrorsNew (''failed to count books: '' @ err_Error err)), db1)
           | Inr count \<Rightarrow>
               (let offset = wrap64 (wrap64 (page - 1) * pageSize)
                in case select_books_page False pageSize offset db1 of
                     (Inl err, db2) \<Rightarrow> (Inl (Errorf ''failed to fetch books: '' err []), db2)
                   | (Inr (rows, rows_Err), db2) \<Rightarrow>
                       (case scan_books rows [] of
                          Inl err \<Rightarrow> (Inl err, db2)
                        | Inr books \<Rightarrow>
                            (case rows_Err of
                               Some err \<Rightarrow> (Inl (Errorf ''rows error: '' err []), db2)
                             | None \<Rightarrow> (Inr (books, count), db2))))))"

definition BookRepository_UpdateBook ::
  "Book \<Rightarrow> database \<Rightarrow> (go_error option \<times> Book) \<times> database" where
  "BookRepository_UpdateBook book db =
     (case update_book False (Title book) (Author book) (Published book) (ISBN book)
             (Pages book) (ID book) db of
        (res, db') \<Rightarrow>
          (case QueryRow_Scan res of
             Inl err \<Rightarrow>
               (if errors_Is err ErrNoRows then ((Some ErrBookNotFound, book), db')
                else ((Some (Errorf ''failed to update book: '' err []), book), db'))
           | Inr u \<Rightarrow> ((None, book\<lparr>UpdatedAt := u\<rparr>), db')))"

definition BookRepository_DeleteBook :: "int \<Rightarrow> database \<Rightarrow> go_error option \<times> database" where
  "BookRepository_DeleteBook bid db =
     (case pool_Begin db of
        (Inl err, db0) \<Rightarrow> (Some (Errorf ''failed to begin transaction: '' err []), db0)
      | (Inr tx, db0) \<Rightarrow>
          (case delete_book bid db0 of
             (Inl err, db1) \<Rightarrow>
               (Some (Errorf ''failed to delete book: '' err []), tx_Rollback tx db1)
           | (Inr rowsAffected, db1) \<Rightarrow>
               (if rowsAffected = 0 then (Some ErrBookNotFound, tx_Rollback tx db1)
                else (case tx_Commit tx db1 of
                        (Some err, db2) \<Rightarrow>
                          (Some (Errorf ''failed to commit transaction: '' err []),
                           tx_Rollback tx db2)
                      | (None, db2) \<Rightarrow> (None, db2)))))"

definition NewBookRepository :: "database BookRepository" where
  "NewBookRepository =
     \<lparr>CreateBook = BookRepository_CreateBook,
      GetByBookID = BookRepository_GetByBookID,
      FetchAllBook = BookRepository_FetchAllBook,
      UpdateBook = BookRepository_UpdateBook,
      DeleteBook = BookRepository_DeleteBook\<rparr>"

section \<open>The repository of \<^verbatim>\<open>src/unnamed/part_001\<close>\<close>

text \<open>
  The second \<^verbatim>\<open>BookRepository\<close> of the sources filters on \<^verbatim>\<open>deleted_at IS NULL\<close>.
  Its \<^verbatim>\<open>CreateBook\<close> is, statement for statement, \<open>BookRepository_CreateBook\<close>.  Its
  \<^verbatim>\<open>Scan\<close> reads the date into the string field \<^verbatim>\<open>book.Published\<close>; the text is the
  date's, as \<open>Format_2006_01_02\<close> writes it.
\<close>

definition rows_Scan_part_001 :: "book_row \<Rightarrow> go_error + Book" where
  "rows_Scan_part_001 r =
     Inr \<lparr>ID = row_id r, Title = title r, Author = author r,
          Published = Format_2006_01_02 (published r), ISBN = isbn r, Pages = pages r,
          CreatedAt = created_at r, UpdatedAt = updated_at r\<rparr>"

text \<open>
  \<^verbatim>\<open>GetByBookID\<close> passes \<^verbatim>\<open>book.ID\<close> of the freshly declared \<^verbatim>\<open>var book models.Book\<close> to
  the query, not its parameter \<^verbatim>\<open>id\<close>.
\<close>

definition BookRepository_GetByBookID_part_001 ::
  "int \<Rightarrow> database \<Rightarrow> (go_error + Book) \<times> database" where
  "BookRepository_GetByBookID_part_001 bid db =
     (let book = zero_Book
      in case select_book_by_id True (ID book) db of
           (res, db') \<Rightarrow>
             (case QueryRow_Scan res of
                Inl err \<Rightarrow>
                  (if errors_Is err ErrNoRows then (Inl ErrBookNotFound, db')
                   else (Inl (Errorf ''failed to get book: '' err []), db'))
              | Inr r \<Rightarrow>
                  (case rows_Scan_part_001 r of
                     Inl err \<Rightarrow>
                       (if errors_Is err ErrNoRows then (Inl ErrBookNotFound, db')
                        else (Inl (Errorf ''failed to get book: '' err []), db'))
                   | Inr book \<Rightarrow> (Inr book, db'))))"

fun scan_books_part_001 :: "book_row list \<Rightarrow> Book list \<Rightarrow> go_error + Book list" where
  "scan_books_part_001 [] books = Inr books"
| "scan_books_part_001 (r # rs) books =
     (case rows_Scan_part_001 r of
        Inl err \<Rightarrow> Inl (Errorf ''failed to scan book: '' err [])
      | Inr book \<Rightarrow> scan_books_part_001 rs (books @ [book]))"

definition BookRepository_FetchAllBook_part_001 ::
  "int \<Rightarrow> int \<Rightarrow> database \<Rightarrow> (go_error + Book list \<times> int) \<times> database" where
  "BookRepository_FetchAllBook_part_001 page pageSize db =
     (case pool_Begin db of
        (Inl err, db0) \<Rightarrow> (Inl (Errorf ''failed to begin transaction: '' err []), db0)
      | (Inr tx, db0) \<Rightarrow>
          (case count_books True db0 of
             (res, db1) \<Rightarrow>
               (case QueryRow_Scan res of
                  Inl err \<Rightarrow>
                    (Inl (Errorf ''failed to count books: '' err []), tx_Rollback tx db1)
                | Inr count \<Rightarrow>
                    (let offset = wrap64 (wrap64 (page - 1) * pageSize)
                     in case select_books_page True pageSize offset db1 of
                          (Inl err, db2) \<Rightarrow>
                            (Inl (Errorf ''failed to fetch books: '' err []),
                             tx_Rollback tx db2)
                        | (Inr (rows, rows_Err), db2) \<Rightarrow>
                            (case scan_books_part_001 rows [] of
                               Inl err \<Rightarrow> (Inl err, tx_Rollback tx db2)
                             | Inr books \<Rightarrow>
                                 (case rows_Err of
                                    Some err \<Rightarrow>
                                      (Inl (Errorf ''rows error: '' err []),
                                       tx_Rollback tx db2)
                                  | None \<Rightarrow>
                                      (case tx_Commit tx db2 of
                                         (Some err, db3) \<Rightarrow>
                                           (Inl (Errorf ''failed to commit transaction: ''
                                                   err []),
                                            tx_Rollback tx db3)
                                       | (None, db3) \<Rightarrow> (Inr (books, count), db3))))))))"

definition BookRepository_UpdateBook_part_001 ::
  "Book \<Rightarrow> database \<Rightarrow> (go_error option \<times> Book) \<times> database" where
  "BookRepository_UpdateBook_part_001 book db =
     (case update_book True (Title book) (Author book) (Published book) (ISBN book)
             (Pages book) (ID book) db of
        (res, db') \<Rightarrow>
          (case QueryRow_Scan res of
             Inl err \<Rightarrow>
               (if errors_Is err ErrNoRows then ((Some ErrBookNotFound, book), db')
                else ((Some (Errorf ''failed to update book: '' err []), book), db'))
           | Inr u \<Rightarrow> ((None, book\<lparr>UpdatedAt := u\<rparr>), db')))"

text \<open>
  \<^verbatim>\<open>DeleteBook\<close> runs its \<^verbatim>\<open>UPDATE\<close> through \<^verbatim>\<open>QueryRow(...).Scan(&deletedID)\<close>, outside
  any transaction.
\<close>

definition BookRepository_DeleteBook_part_001 ::
  "int \<Rightarrow> database \<Rightarrow> go_error option \<times> database" where
  "BookRepository_DeleteBook_part_001 bid db =
     (case mark_book_deleted bid db of
        (res, db') \<Rightarrow>
          (case QueryRow_Scan res of
             Inl err \<Rightarrow>
               (if errors_Is err ErrNoRows then (Some ErrBookNotFound, db')
                else (Some (Errorf ''failed to delete book: '' err []), db'))
           | Inr deletedID \<Rightarrow> (None, db')))"

definition NewBookRepository_part_001 :: "database BookRepository" where
  "NewBookRepository_part_001 =
     \<lparr>CreateBook = BookRepository_CreateBook,
      GetByBookID = BookRepository_GetByBookID_part_001,
      FetchAllBook = BookRepository_FetchAllBook_part_001,
      UpdateBook = BookRepository_UpdateBook_part_001,
      DeleteBook = BookRepository_DeleteBook_part_001\<rparr>"

section \<open>Vocabulary of the properties, and data for their instances\<close>

text \<open>A result is a failure of a kind when it is an error that \<^verbatim>\<open>errors.Is\<close> the kind.\<close>

definition failed_as :: "go_error + 'a \<Rightarrow> go_error \<Rightarrow> bool" where
  "failed_as res kind = (case res of Inl e \<Rightarrow> errors_Is e kind | Inr x \<Rightarrow> False)"

text \<open>
  A generic storage error is an error of the repository that is none of the sentinels
  of \<^verbatim>\<open>repositories/errors.go\<close>.
\<close>

definition generic_storage_error :: "go_error \<Rightarrow> bool" where
  "generic_storage_error r =
     (\<not> errors_Is r ErrBookNotFound \<and> \<not> errors_Is r ErrDuplicateISBN \<and>
      \<not> errors_Is r ErrInvalidData \<and> \<not> errors_Is r ErrInvalidReference)"

text \<open>
  The layout \<^verbatim>\<open>2006-01-02\<close> that the tag \<^verbatim>\<open>datetime=2006-01-02\<close> of the request types asks
  of \<open>published\<close>: ten characters, digits but for the two separators.
\<close>

definition layout_2006_01_02 :: "string \<Rightarrow> bool" where
  "layout_2006_01_02 s =
     (length s = 10 \<and> s ! 4 = CHR ''-'' \<and> s ! 7 = CHR ''-'' \<and>
      list_all (\<lambda>i. digit_of (s ! i) \<noteq> None) [0, 1, 2, 3, 5, 6, 8, 9])"

text \<open>
  A store is well formed when the ids of its rows are positive and were drawn from the
  sequence.
\<close>

definition well_formed :: "database \<Rightarrow> bool" where
  "well_formed db =
     (0 \<le> books_id_seq db \<and>
      list_all (\<lambda>r. 0 < row_id r \<and> row_id r \<le> books_id_seq db) (rows_of db))"

text \<open>The book of the spec's scenario (section 8), as a request, a row and a book.\<close>

definition dune :: BookCreateRequest where
  "dune = \<lparr>cr_Title = ''Dune'', cr_Author = ''Herbert'', cr_Published = ''1965-08-01'',
     cr_ISBN = ''978-0-441-01359-3'', cr_Pages = 412\<rparr>"

definition dune_row :: book_row where
  "dune_row = \<lparr>row_id = 1, title = ''Dune'', author = ''Herbert'',
     published = (1965, 8, 1), isbn = ''978-0-441-01359-3'', pages = 412,
     created_at = 101, updated_at = 101, deleted_at = None\<rparr>"

definition dune_book :: Book where
  "dune_book = \<lparr>ID = 1, Title = ''Dune'', Author = ''Herbert'',
     Published = ''1965-08-01'', ISBN = ''978-0-441-01359-3'', Pages = 412,
     CreatedAt = 101, UpdatedAt = 101\<rparr>"

text \<open>A second book.\<close>

definition emma :: BookCreateRequest where
  "emma = \<lparr>cr_Title = ''Emma'', cr_Author = ''Austen'', cr_Published = ''1815-12-23'',
     cr_ISBN = ''978-0-14-143958-7'', cr_Pages = 474\<rparr>"

definition emma_row :: book_row where
  "emma_row = \<lparr>row_id = 2, title = ''Emma'', author = ''Austen'',
     published = (1815, 12, 23), isbn = ''978-0-14-143958-7'', pages = 474,
     created_at = 102, updated_at = 102, deleted_at = None\<rparr>"

definition emma_book :: Book where
  "emma_book = \<lparr>ID = 2, Title = ''Emma'', Author = ''Austen'',
     Published = ''1815-12-23'', ISBN = ''978-0-14-143958-7'', Pages = 474,
     CreatedAt = 102, UpdatedAt = 102\<rparr>"

text \<open>
  Stores: an empty one at time 100; the one that creating \<open>dune\<close> in it leaves; the one
  that creating \<open>emma\<close> in that leaves; the last with the row of \<open>dune\<close> marked deleted
  at time 103; and two that hold \<open>dune\<close> and whose first, or second, round trip fails on
  an expired deadline.
\<close>

definition empty_db :: database where
  "empty_db = \<lparr>rows_of = [], books_id_seq = 0, clock = 100, faults = []\<rparr>"

definition dune_db :: database where
  "dune_db = \<lparr>rows_of = [dune_row], books_id_seq = 1, clock = 101, faults = []\<rparr>"

definition two_books_db :: database where
  "two_books_db = \<lparr>rows_of = [dune_row, emma_row], books_id_seq = 2, clock = 102,
     faults = []\<rparr>"

definition mixed_db :: database where
  "mixed_db = \<lparr>rows_of = [dune_row\<lparr>deleted_at := Some 103\<rparr>, emma_row],
     books_id_seq = 2, clock = 103, faults = []\<rparr>"

definition down_db :: database where
  "down_db = \<lparr>rows_of = [dune_row], books_id_seq = 1, clock = 101,
     faults = [Some DeadlineExceeded]\<rparr>"

definition flaky_db :: database where
  "flaky_db = \<lparr>rows_of = [dune_row], books_id_seq = 1, clock = 101,
     faults = [None, Some DeadlineExceeded]\<rparr>"

text \<open>
  Requests: \<open>dune\<close> with four pages; \<open>dune\<close> with a text that is no date; an update that
  supplies a title only; and an update that supplies the isbn of \<open>dune\<close> only.
\<close>

definition no_date :: BookCreateRequest where
  "no_date = dune\<lparr>cr_Published := ''soon''\<rparr>"

definition dune_isbn :: BookUpdateRequest where
  "dune_isbn = \<lparr>ur_Title = [], ur_Author = [], ur_Published = [],
     ur_ISBN = ''978-0-441-01359-3'', ur_Pages = 0\<rparr>"

definition four_pages :: BookCreateRequest where
  "four_pages = dune\<lparr>cr_Pages := 4\<rparr>"

definition new_title :: BookUpdateRequest where
  "new_title = \<lparr>ur_Title = ''New Title'', ur_Author = [], ur_Published = [],
     ur_ISBN = [], ur_Pages = 0\<rparr>"

text \<open>
  A repository over a store that a second client uses: right after the read of
  \<^verbatim>\<open>GetByBookID\<close>, the second client's \<^verbatim>\<open>DeleteBook\<close> of the same id runs.
\<close>

definition deleted_meanwhile :: "database BookRepository" where
  "deleted_meanwhile =
     NewBookRepository\<lparr>GetByBookID :=
       (\<lambda>bid db. case BookRepository_GetByBookID bid db of
          (res, db') \<Rightarrow> (res, snd (BookRepository_DeleteBook bid db')))\<rparr>"

section \<open>Properties\<close>

lemmas service_defs =
  BookService_CreateBook_def BookService_GetByBookID_def BookService_FetchAllBook_def
  BookService_UpdateBook_def BookService_DeleteBook_def validateBookCreateRequest_def
  validateBookUpdateRequest_def

lemmas store_defs =
  round_trip_def live_def QueryRow_Scan_def insert_book_def select_book_by_id_def
  count_books_def select_books_page_def update_book_def delete_book_def
  mark_book_deleted_def pool_Begin_def tx_Rollback_def tx_Commit_def

lemmas repository_defs =
  BookRepository_CreateBook_def rows_Scan_def BookRepository_GetByBookID_def
  BookRepository_FetchAllBook_def BookRepository_UpdateBook_def
  BookRepository_DeleteBook_def NewBookRepository_def wrap64_def
  Format_2006_01_02_def digit_char_def Let_def

lemmas part_001_defs =
  rows_Scan_part_001_def BookRepository_GetByBookID_part_001_def
  BookRepository_FetchAllBook_part_001_def BookRepository_UpdateBook_part_001_def
  BookRepository_DeleteBook_part_001_def NewBookRepository_part_001_def zero_Book_def

lemmas data_defs =
  dune_def dune_row_def dune_book_def empty_db_def dune_db_def two_books_db_def
  mixed_db_def down_db_def flaky_db_def four_pages_def new_title_def emma_def
  emma_row_def emma_book_def no_date_def dune_isbn_def

lemma date_in_dune: "date_in ''1965-08-01'' = Some (1965, 8, 1)"
  by (simp add: date_in_def digit_of_def days_in_month_def leap_year_def)

lemma date_in_emma: "date_in ''1815-12-23'' = Some (1815, 12, 23)"
  by (simp add: date_in_def digit_of_def days_in_month_def leap_year_def)

lemma date_in_soon: "date_in ''soon'' = None"
  by (simp add: date_in_def)

lemma no_row_beyond_the_sequence:
  assumes "list_all (\<lambda>r. 0 < row_id r \<and> row_id r \<le> n) rows" "n < k"
  shows "filter (\<lambda>r. row_id r = k) rows = []"
  using assms by (induction rows) auto

lemma no_row_0:
  assumes "list_all (\<lambda>r. 0 < row_id r \<and> row_id r \<le> n) rows"
  shows "filter (\<lambda>r. row_id r = 0 \<and> P r) rows = []"
  using assms by (induction rows) auto

subsection \<open>Where the stores of the instances come from\<close>

lemma dune_db_is_created:
  "BookService_CreateBook NewBookRepository dune empty_db = (Inr dune_book, dune_db)"
  by (simp add: service_defs store_defs repository_defs data_defs date_in_dune)

lemma two_books_db_is_created:
  "BookService_CreateBook NewBookRepository emma dune_db = (Inr emma_book, two_books_db)"
  "BookService_CreateBook NewBookRepository_part_001 emma dune_db =
     (Inr emma_book, two_books_db)"
  by (simp_all add: service_defs store_defs repository_defs part_001_defs data_defs
      date_in_emma)

lemma mixed_db_is_left_by_part_001:
  "snd (BookRepository_DeleteBook_part_001 1 two_books_db) = mixed_db"
  by (simp add: store_defs part_001_defs data_defs)

text \<open>
  The scenario of the spec (section 8) over \<open>NewBookRepository\<close>: created with id 1,
  read back, deleted, then not found.
\<close>

lemma scenario_of_section_8:
  "BookService_CreateBook NewBookRepository dune empty_db = (Inr dune_book, dune_db)"
  "BookService_GetByBookID NewBookRepository 1 dune_db =
     (Inr dune_book, dune_db\<lparr>clock := 102\<rparr>)"
  "BookService_DeleteBook NewBookRepository 1 (dune_db\<lparr>clock := 102\<rparr>) =
     (None, dune_db\<lparr>rows_of := [], clock := 106\<rparr>)"
  "BookService_GetByBookID NewBookRepository 1 (dune_db\<lparr>rows_of := [], clock := 106\<rparr>) =
     (Inl ErrNotFound, dune_db\<lparr>rows_of := [], clock := 107\<rparr>)"
  by (simp_all add: service_defs store_defs repository_defs data_defs date_in_dune)

subsection \<open>Dates\<close>

lemma digit_of_SomeD:
  assumes "digit_of c = Some n"
  shows "n < 10" and "digit_char n = c" and "c \<noteq> CHR ''-''"
proof -
  from assms have code: "48 \<le> (of_char c :: nat)" "(of_char c :: nat) \<le> 57"
    and n: "n = of_char c - 48"
    by (auto simp: digit_of_def Let_def split: if_splits)
  show "n < 10" using code n by simp
  then have "n \<in> {0,1,2,3,4,5,6,7,8,9}" by auto
  moreover have "(of_char c :: nat) = 48 + n" using code n by simp
  ultimately have "(of_char (digit_char n) :: nat) = of_char c"
    by (auto simp: digit_char_def)
  then show "digit_char n = c"
    by (simp only: of_char_eq_iff)
  show "c \<noteq> CHR ''-''" using code by auto
qed

lemma length_10E:
  assumes "length (s :: 'a list) = 10"
  obtains x0 x1 x2 x3 x4 x5 x6 x7 x8 x9 where "s = [x0, x1, x2, x3, x4, x5, x6, x7, x8, x9]"
proof -
  from assms have "\<exists>x0 x1 x2 x3 x4 x5 x6 x7 x8 x9. s = [x0, x1, x2, x3, x4, x5, x6, x7, x8, x9]"
    by (simp add: numeral_eq_Suc length_Suc_conv) blast
  then show thesis using that by blast
qed

lemma layout_cases:
  assumes "layout_2006_01_02 s"
  obtains y1 y2 y3 y4 m1 m2 d1 d2 a b c d e f g h where
    "s = [y1, y2, y3, y4, CHR ''-'', m1, m2, CHR ''-'', d1, d2]"
    "digit_of y1 = Some a" "digit_of y2 = Some b" "digit_of y3 = Some c" "digit_of y4 = Some d"
    "digit_of m1 = Some e" "digit_of m2 = Some f" "digit_of d1 = Some g" "digit_of d2 = Some h"
proof -
  from assms have "length s = 10" by (simp add: layout_2006_01_02_def)
  then obtain x0 x1 x2 x3 x4 x5 x6 x7 x8 x9 where
    s: "s = [x0, x1, x2, x3, x4, x5, x6, x7, x8, x9]" by (rule length_10E)
  from assms have "x4 = CHR ''-''" "x7 = CHR ''-''"
    "digit_of x0 \<noteq> None" "digit_of x1 \<noteq> None" "digit_of x2 \<noteq> None" "digit_of x3 \<noteq> None"
    "digit_of x5 \<noteq> None" "digit_of x6 \<noteq> None" "digit_of x8 \<noteq> None" "digit_of x9 \<noteq> None"
    by (simp_all add: layout_2006_01_02_def s)
  with s that show thesis by blast
qed


lemma div_mod_digit:
  fixes q r k :: nat
  assumes "r < k"
  shows "(k * q + r) div k = q" "(k * q + r) mod k = r"
  using assms by simp_all

lemma four_digits:
  assumes "a < 10" "b < 10" "c < 10" "d < (10::nat)"
  shows "(1000 * a + 100 * b + 10 * c + d) div 1000 mod 10 = a"
    "(1000 * a + 100 * b + 10 * c + d) div 100 mod 10 = b"
    "(1000 * a + 100 * b + 10 * c + d) div 10 mod 10 = c"
    "(1000 * a + 100 * b + 10 * c + d) mod 10 = d"
proof -
  let ?x = "1000 * a + 100 * b + 10 * c + d"
  have x: "?x = 1000 * a + (100 * b + 10 * c + d)" "?x = 100 * (10 * a + b) + (10 * c + d)"
    "?x = 10 * (100 * a + 10 * b + c) + d"
    by simp_all
  have small: "100 * b + 10 * c + d < 1000" "10 * c + d < 100"
    using assms by linarith+
  have "?x div 1000 = a"
    unfolding x(1) using small(1) by (rule div_mod_digit(1))
  then show "?x div 1000 mod 10 = a" using assms by simp
  have "?x div 100 = 10 * a + b"
    unfolding x(2) using small(2) by (rule div_mod_digit(1))
  then show "?x div 100 mod 10 = b" using assms by (simp add: div_mod_digit(2))
  have "?x div 10 = 10 * (10 * a + b) + c"
    unfolding x(3) using assms(4) by (simp add: div_mod_digit(1))
  then show "?x div 10 mod 10 = c" using assms by (simp only: div_mod_digit(2))
  show "?x mod 10 = d"
    unfolding x(3) using assms(4) by (rule div_mod_digit(2))
qed

lemma two_digits:
  assumes "e < 10" "f < (10::nat)"
  shows "(10 * e + f) div 10 mod 10 = e" "(10 * e + f) mod 10 = f"
  using assms by (simp_all add: div_mod_digit)


lemma digit_char_mod: "digit_char (n mod 10) = digit_char n"
  by (simp add: digit_char_def)

lemma digit_char_eq:
  assumes "n mod 10 = k" "digit_char k = c"
  shows "digit_char n = c"
  using assms digit_char_mod [of n] by simp


lemma split_on_date:
  assumes "y1 \<noteq> CHR ''-''" "y2 \<noteq> CHR ''-''" "y3 \<noteq> CHR ''-''" "y4 \<noteq> CHR ''-''"
    "m1 \<noteq> CHR ''-''" "m2 \<noteq> CHR ''-''" "d1 \<noteq> CHR ''-''" "d2 \<noteq> CHR ''-''"
  shows "split_on CHR ''-'' [y1, y2, y3, y4, CHR ''-'', m1, m2, CHR ''-'', d1, d2] =
    [[y1, y2, y3, y4], [m1, m2], [d1, d2]]"
  using assms by simp


lemma number_of_digits:
  assumes "digit_of y1 = Some a" "digit_of y2 = Some b" "digit_of y3 = Some c" "digit_of y4 = Some d"
  shows "number_of 0 [y1, y2, y3, y4] = Some (1000 * a + 100 * b + 10 * c + d)"
    "number_of 0 [y1, y2] = Some (10 * a + b)"
  by (simp_all add: assms)

lemma date_in_digits:
  assumes "split_on CHR ''-'' s = [[y1, y2, y3, y4], [m1, m2], [d1, d2]]"
    "number_of 0 [y1, y2, y3, y4] = Some y" "number_of 0 [m1, m2] = Some m"
    "number_of 0 [d1, d2] = Some d" "date_in s = Some dt"
  shows "dt = (y, m, d)"
  using assms(5) unfolding date_in_def assms(1)
  by (simp add: assms(2-4) del: number_of.simps split: if_splits)


lemma Format_digits:
  assumes "digit_of y1 = Some a" "digit_of y2 = Some b" "digit_of y3 = Some c"
    "digit_of y4 = Some d" "digit_of m1 = Some e" "digit_of m2 = Some f"
    "digit_of d1 = Some g" "digit_of d2 = Some h"
  shows "Format_2006_01_02 (1000 * a + 100 * b + 10 * c + d, 10 * e + f, 10 * g + h) =
    [y1, y2, y3, y4, CHR ''-'', m1, m2, CHR ''-'', d1, d2]"
proof -
  note D = assms [THEN digit_of_SomeD(1)] and C = assms [THEN digit_of_SomeD(2)]
  let ?y = "1000 * a + 100 * b + 10 * c + d" and ?m = "10 * e + f" and ?d = "10 * g + h"
  have year: "digit_char (?y div 1000) = y1" "digit_char (?y div 100) = y2"
    "digit_char (?y div 10) = y3" "digit_char ?y = y4"
    by (rule digit_char_eq [OF four_digits(1) [OF D(1-4)] C(1)],
        rule digit_char_eq [OF four_digits(2) [OF D(1-4)] C(2)],
        rule digit_char_eq [OF four_digits(3) [OF D(1-4)] C(3)],
        rule digit_char_eq [OF four_digits(4) [OF D(1-4)] C(4)])
  have month: "digit_char (?m div 10) = m1" "digit_char ?m = m2"
    by (rule digit_char_eq [OF two_digits(1) [OF D(5,6)] C(5)],
        rule digit_char_eq [OF two_digits(2) [OF D(5,6)] C(6)])
  have day: "digit_char (?d div 10) = d1" "digit_char ?d = d2"
    by (rule digit_char_eq [OF two_digits(1) [OF D(7,8)] C(7)],
        rule digit_char_eq [OF two_digits(2) [OF D(7,8)] C(8)])
  show ?thesis
    unfolding Format_2006_01_02_def by (simp only: prod.case year month day)
qed


lemma date_round_trip:
  assumes "layout_2006_01_02 s" "date_in s = Some dt"
  shows "Format_2006_01_02 dt = s"
  using assms(1)
proof (rule layout_cases)
  fix y1 y2 y3 y4 m1 m2 d1 d2 a b c d e f g h
  assume s: "s = [y1, y2, y3, y4, CHR ''-'', m1, m2, CHR ''-'', d1, d2]"
    and y: "digit_of y1 = Some a" "digit_of y2 = Some b" "digit_of y3 = Some c"
      "digit_of y4 = Some d"
    and m: "digit_of m1 = Some e" "digit_of m2 = Some f"
    and d: "digit_of d1 = Some g" "digit_of d2 = Some h"
  note no_dash = y [THEN digit_of_SomeD(3)] m [THEN digit_of_SomeD(3)]
    d [THEN digit_of_SomeD(3)]
  have "split_on CHR ''-'' s = [[y1, y2, y3, y4], [m1, m2], [d1, d2]]"
    unfolding s by (rule split_on_date [OF no_dash])
  then have "dt = (1000 * a + 100 * b + 10 * c + d, 10 * e + f, 10 * g + h)"
    using number_of_digits(1) [OF y] number_of_digits(2) [OF m y(3,4)]
      number_of_digits(2) [OF d y(3,4)] assms(2)
    by (rule date_in_digits)
  then show ?thesis
    unfolding s by (simp only: Format_digits [OF y m d])
qed

subsection \<open>Validation comes first\<close>

lemma GetByBookID_nonpositive_id:
  assumes "bid \<le> 0"
  shows "BookService_GetByBookID repo bid s =
           (Inl (Errorf [] ErrInvalidData '': invalid book ID''), s)"
    and "\<not> failed_as (fst (BookService_GetByBookID repo bid s)) ErrInvalidInput"
  using assms by (simp_all add: BookService_GetByBookID_def failed_as_def)

text \<open>
  Claim C7.  For every id less than or equal to 0, the service's \<^verbatim>\<open>GetByBookID\<close> is to
  fail with the kind \<open>ErrInvalidInput\<close> without calling the repository.  At the id 0
  the service leaves the store alone, whatever the repository; but the error it
  returns wraps \<open>ErrInvalidData\<close> of the repositories package, and is no
  \<open>ErrInvalidInput\<close>.  \<^verbatim>\<open>UpdateBook\<close> and \<^verbatim>\<open>DeleteBook\<close> wrap \<open>ErrInvalidInput\<close> for the same
  id.
\<close>

theorem GetByBookID_id_0_is_ErrInvalidData:
  "BookService_GetByBookID repo 0 s =
     (Inl (Errorf [] ErrInvalidData '': invalid book ID''), s) \<and>
   \<not> failed_as (fst (BookService_GetByBookID repo 0 s)) ErrInvalidInput \<and>
   failed_as (fst (BookService_UpdateBook repo 0 req s)) ErrInvalidInput \<and>
   errors_Is (the (fst (BookService_DeleteBook repo 0 s))) ErrInvalidInput"
  by (simp add: service_defs failed_as_def)

text \<open>
  Claim C8.  Every create request with fewer than 5 pages fails with the kind
  \<open>ErrInvalidInput\<close>, and no call reaches the store: the store is returned as it was
  given, and the outcome is the same for every repository and every store.
\<close>

theorem CreateBook_below_5_pages_is_rejected:
  assumes "cr_Pages req < 5"
  shows "failed_as (fst (BookService_CreateBook repo req s)) ErrInvalidInput \<and>
         snd (BookService_CreateBook repo req s) = s \<and>
         fst (BookService_CreateBook repo req s) =
           fst (BookService_CreateBook repo' req s')"
  using assms by (simp add: service_defs failed_as_def)

theorem CreateBook_below_5_pages_witness:
  "cr_Pages four_pages < 5 \<and>
   failed_as (fst (BookService_CreateBook NewBookRepository four_pages empty_db))
     ErrInvalidInput \<and>
   rows_of (snd (BookService_CreateBook NewBookRepository four_pages empty_db)) = []"
proof -
  have few: "cr_Pages four_pages < 5"
    by (simp add: data_defs)
  have "failed_as (fst (BookService_CreateBook NewBookRepository four_pages empty_db))
          ErrInvalidInput \<and>
        snd (BookService_CreateBook NewBookRepository four_pages empty_db) = empty_db"
    using CreateBook_below_5_pages_is_rejected
      [OF few, of NewBookRepository empty_db NewBookRepository empty_db]
    by blast
  moreover have "rows_of empty_db = []"
    by (simp add: empty_db_def)
  ultimately show ?thesis
    using few by simp
qed

subsection \<open>Pagination\<close>

lemma fetch_dune_db:
  "FetchAllBook NewBookRepository 1 20 dune_db = (Inr ([dune_book], 1), dune_db\<lparr>clock := 103\<rparr>)"
  "FetchAllBook NewBookRepository 1 50 dune_db = (Inr ([dune_book], 1), dune_db\<lparr>clock := 103\<rparr>)"
  "FetchAllBook NewBookRepository 2 20 dune_db = (Inr ([], 1), dune_db\<lparr>clock := 103\<rparr>)"
  by (simp_all add: store_defs repository_defs data_defs)

text \<open>
  Claim C9.  For a page below 1 and a page size outside 1 to 100 the service's
  \<^verbatim>\<open>FetchAllBook\<close> does not fail on the arguments: it calls the repository with page 1
  and page size 20, and returns the repository's answer, an error of the repository
  wrapped as it is for every other call.  The same holds when one argument alone is out
  of range: that one is replaced, the other is passed on.
\<close>

theorem FetchAllBook_corrects_pagination:
  "(page < 1 \<and> (pageSize < 1 \<or> 100 < pageSize) \<longrightarrow>
      BookService_FetchAllBook repo page pageSize s =
        (case FetchAllBook repo 1 20 s of
           (Inl err, s') \<Rightarrow> (Inl (Errorf ''repository error: '' err []), s')
         | (Inr found, s') \<Rightarrow> (Inr found, s'))) \<and>
   (page < 1 \<and> 1 \<le> pageSize \<and> pageSize \<le> 100 \<longrightarrow>
      BookService_FetchAllBook repo page pageSize s =
        (case FetchAllBook repo 1 pageSize s of
           (Inl err, s') \<Rightarrow> (Inl (Errorf ''repository error: '' err []), s')
         | (Inr found, s') \<Rightarrow> (Inr found, s'))) \<and>
   (1 \<le> page \<and> (pageSize < 1 \<or> 100 < pageSize) \<longrightarrow>
      BookService_FetchAllBook repo page pageSize s =
        (case FetchAllBook repo page 20 s of
           (Inl err, s') \<Rightarrow> (Inl (Errorf ''repository error: '' err []), s')
         | (Inr found, s') \<Rightarrow> (Inr found, s')))"
  by (auto simp add: BookService_FetchAllBook_def split: prod.splits sum.splits)

theorem FetchAllBook_corrects_pagination_witness:
  "(0::int) < 1 \<and> (100::int) < 1000 \<and>
   BookService_FetchAllBook NewBookRepository 0 1000 dune_db =
     (Inr ([dune_book], 1), dune_db\<lparr>clock := 103\<rparr>) \<and>
   BookService_FetchAllBook NewBookRepository (- 3) 50 dune_db =
     (Inr ([dune_book], 1), dune_db\<lparr>clock := 103\<rparr>) \<and>
   BookService_FetchAllBook NewBookRepository 2 0 dune_db =
     (Inr ([], 1), dune_db\<lparr>clock := 103\<rparr>)"
proof -
  have "BookService_FetchAllBook NewBookRepository 0 1000 dune_db =
          (Inr ([dune_book], 1), dune_db\<lparr>clock := 103\<rparr>)"
    using FetchAllBook_corrects_pagination [of 0 1000 NewBookRepository dune_db]
    by (simp add: fetch_dune_db)
  moreover have "BookService_FetchAllBook NewBookRepository (- 3) 50 dune_db =
          (Inr ([dune_book], 1), dune_db\<lparr>clock := 103\<rparr>)"
    using FetchAllBook_corrects_pagination [of "- 3" 50 NewBookRepository dune_db]
    by (simp add: fetch_dune_db)
  moreover have "BookService_FetchAllBook NewBookRepository 2 0 dune_db =
          (Inr ([], 1), dune_db\<lparr>clock := 103\<rparr>)"
    using FetchAllBook_corrects_pagination [of 2 0 NewBookRepository dune_db]
    by (simp add: fetch_dune_db)
  ultimately show ?thesis
    by simp
qed

subsection \<open>Errors of the repository at the service\<close>

lemma deleted_meanwhile_calls:
  "GetByBookID deleted_meanwhile 1 dune_db =
     (Inr dune_book, dune_db\<lparr>rows_of := [], clock := 105\<rparr>)"
  "DeleteBook deleted_meanwhile 1 (dune_db\<lparr>rows_of := [], clock := 105\<rparr>) =
     (Some ErrBookNotFound, dune_db\<lparr>rows_of := [], clock := 108\<rparr>)"
  by (simp_all add: deleted_meanwhile_def store_defs repository_defs data_defs)

lemma empty_db_lookup:
  "GetByBookID NewBookRepository 1 empty_db = (Inl ErrBookNotFound, empty_db\<lparr>clock := 101\<rparr>)"
  by (simp add: store_defs repository_defs data_defs)

text \<open>
  Claim C10.  When the existence check of the service's \<^verbatim>\<open>DeleteBook\<close> finds the book
  and the repository's \<^verbatim>\<open>DeleteBook\<close> then reports \<open>ErrBookNotFound\<close>, the service
  returns that error wrapped as any repository error, which is no \<open>ErrNotFound\<close>; when
  the lookup itself reports \<open>ErrBookNotFound\<close>, \<^verbatim>\<open>GetByBookID\<close> and \<^verbatim>\<open>UpdateBook\<close> return
  \<open>ErrNotFound\<close>.
\<close>

theorem DeleteBook_late_BookNotFound_is_not_ErrNotFound:
  "(0 < bid \<and> GetByBookID repo bid s = (Inr book, s1) \<and>
    DeleteBook repo bid s1 = (Some ErrBookNotFound, s2) \<longrightarrow>
      BookService_DeleteBook repo bid s =
        (Some (Errorf ''repository error: '' ErrBookNotFound []), s2) \<and>
      \<not> errors_Is (Errorf ''repository error: '' ErrBookNotFound []) ErrNotFound) \<and>
   (0 < bid \<and> validateBookUpdateRequest req = None \<and>
    GetByBookID repo bid s = (Inl ErrBookNotFound, s1) \<longrightarrow>
      BookService_GetByBookID repo bid s = (Inl ErrNotFound, s1) \<and>
      BookService_UpdateBook repo bid req s = (Inl ErrNotFound, s1))"
  by (simp add: service_defs)

theorem DeleteBook_late_BookNotFound_witness:
  "BookService_DeleteBook deleted_meanwhile 1 dune_db =
     (Some (Errorf ''repository error: '' ErrBookNotFound []),
      dune_db\<lparr>rows_of := [], clock := 108\<rparr>) \<and>
   \<not> errors_Is (Errorf ''repository error: '' ErrBookNotFound []) ErrNotFound \<and>
   BookService_GetByBookID NewBookRepository 1 empty_db =
     (Inl ErrNotFound, empty_db\<lparr>clock := 101\<rparr>) \<and>
   BookService_UpdateBook NewBookRepository 1 new_title empty_db =
     (Inl ErrNotFound, empty_db\<lparr>clock := 101\<rparr>)"
proof -
  have valid: "validateBookUpdateRequest new_title = None"
    by (simp add: validateBookUpdateRequest_def new_title_def)
  have "BookService_DeleteBook deleted_meanwhile 1 dune_db =
          (Some (Errorf ''repository error: '' ErrBookNotFound []),
           dune_db\<lparr>rows_of := [], clock := 108\<rparr>) \<and>
        \<not> errors_Is (Errorf ''repository error: '' ErrBookNotFound []) ErrNotFound"
    using DeleteBook_late_BookNotFound_is_not_ErrNotFound
      [of 1 deleted_meanwhile dune_db dune_book "dune_db\<lparr>rows_of := [], clock := 105\<rparr>"
          "dune_db\<lparr>rows_of := [], clock := 108\<rparr>"]
    by (simp add: deleted_meanwhile_calls)
  moreover have "BookService_GetByBookID NewBookRepository 1 empty_db =
          (Inl ErrNotFound, empty_db\<lparr>clock := 101\<rparr>) \<and>
        BookService_UpdateBook NewBookRepository 1 new_title empty_db =
          (Inl ErrNotFound, empty_db\<lparr>clock := 101\<rparr>)"
    using DeleteBook_late_BookNotFound_is_not_ErrNotFound
      [of 1 NewBookRepository empty_db _ "empty_db\<lparr>clock := 101\<rparr>" _ new_title] valid
    by (simp add: empty_db_lookup)
  ultimately show ?thesis
    by simp
qed

lemma chain_self: "r \<in> set (chain r)"
  by (cases r) simp_all

lemma down_db_calls:
  "GetByBookID NewBookRepository 1 down_db =
     (Inl (Errorf ''failed to get book: '' DeadlineExceeded []),
      down_db\<lparr>clock := 102, faults := []\<rparr>)"
  "CreateBook NewBookRepository bk down_db =
     ((Some (Errorf ''failed to create book: '' DeadlineExceeded []), bk),
      down_db\<lparr>clock := 102, faults := []\<rparr>)"
  "FetchAllBook NewBookRepository 1 20 down_db =
     (Inl (ErrorsNew ''failed to count books: context deadline exceeded''),
      down_db\<lparr>clock := 102, faults := []\<rparr>)"
  by (simp_all add: store_defs repository_defs data_defs)

lemma flaky_db_calls:
  "GetByBookID NewBookRepository 1 flaky_db =
     (Inr dune_book, flaky_db\<lparr>clock := 102, faults := [Some DeadlineExceeded]\<rparr>)"
  "UpdateBook NewBookRepository bk
       (flaky_db\<lparr>clock := 102, faults := [Some DeadlineExceeded]\<rparr>) =
     ((Some (Errorf ''failed to update book: '' DeadlineExceeded []), bk),
      flaky_db\<lparr>clock := 103, faults := []\<rparr>)"
  "DeleteBook NewBookRepository 1
       (flaky_db\<lparr>clock := 102, faults := [Some DeadlineExceeded]\<rparr>) =
     (Some (Errorf ''failed to begin transaction: '' DeadlineExceeded []),
      flaky_db\<lparr>clock := 103, faults := []\<rparr>)"
  by (simp_all add: store_defs repository_defs data_defs)

lemma no_date_call:
  "CreateBook NewBookRepository
     \<lparr>ID = 0, Title = cr_Title no_date, Author = cr_Author no_date,
      Published = cr_Published no_date, ISBN = cr_ISBN no_date, Pages = cr_Pages no_date,
      CreatedAt = 0, UpdatedAt = 0\<rparr> empty_db =
   ((Some (Errorf ''failed to create book: ''
             (PgError ''22007'' ''invalid input syntax for type date'') []),
     \<lparr>ID = 0, Title = cr_Title no_date, Author = cr_Author no_date,
      Published = cr_Published no_date, ISBN = cr_ISBN no_date, Pages = cr_Pages no_date,
      CreatedAt = 0, UpdatedAt = 0\<rparr>), empty_db\<lparr>clock := 101\<rparr>)"
  by (simp add: store_defs repository_defs data_defs date_in_soon)

lemma dune_isbn_calls:
  "GetByBookID NewBookRepository 2 two_books_db = (Inr emma_book, two_books_db\<lparr>clock := 103\<rparr>)"
  "UpdateBook NewBookRepository (emma_book\<lparr>ISBN := ''978-0-441-01359-3'', Pages := 0\<rparr>)
       (two_books_db\<lparr>clock := 103\<rparr>) =
     ((Some (Errorf ''failed to update book: ''
               (PgError ''23505'' ''duplicate key value violates unique constraint'') []),
       emma_book\<lparr>ISBN := ''978-0-441-01359-3'', Pages := 0\<rparr>),
      two_books_db\<lparr>clock := 104\<rparr>)"
  by (simp_all add: store_defs repository_defs data_defs date_in_emma)

text \<open>
  Claim C6, as stated: no error value of the repository is ever part of an error the
  service returns.  It is false where the store misses a deadline under
  \<^verbatim>\<open>GetByBookID\<close>: the service returns the repository's error wrapped, the
  repository's error is in its chain, and it is none of the service's sentinels.
\<close>

theorem repository_error_inside_service_error:
  "fst (GetByBookID NewBookRepository 1 down_db) =
     Inl (Errorf ''failed to get book: '' DeadlineExceeded []) \<and>
   fst (BookService_GetByBookID NewBookRepository 1 down_db) =
     Inl (Errorf ''repository error: ''
            (Errorf ''failed to get book: '' DeadlineExceeded []) []) \<and>
   Errorf ''failed to get book: '' DeadlineExceeded [] \<in>
     set (chain (Errorf ''repository error: ''
                   (Errorf ''failed to get book: '' DeadlineExceeded []) [])) \<and>
   \<not> failed_as (fst (BookService_GetByBookID NewBookRepository 1 down_db)) ErrNotFound \<and>
   \<not> failed_as (fst (BookService_GetByBookID NewBookRepository 1 down_db))
       ErrInvalidInput \<and>
   \<not> failed_as (fst (BookService_GetByBookID NewBookRepository 1 down_db)) ErrConflict \<and>
   \<not> failed_as (fst (BookService_GetByBookID NewBookRepository 1 down_db))
       ErrPermissionDenied"
  by (simp add: BookService_GetByBookID_def down_db_calls failed_as_def)

text \<open>
  Claim C6, amended.  An error of the repository's \<^verbatim>\<open>GetByBookID\<close> that is an
  \<open>ErrBookNotFound\<close> is replaced: the service's \<^verbatim>\<open>GetByBookID\<close>, \<^verbatim>\<open>UpdateBook\<close> and
  \<^verbatim>\<open>DeleteBook\<close> return \<open>ErrNotFound\<close> itself, whose chain holds nothing else.  A generic
  storage error is not replaced: whichever call of the repository reports it (the
  lookup, or the call on the very book and arguments the service passes), each of the
  five operations returns it wrapped, with the text \<open>repository error: \<close> before it,
  and the repository's error is in the chain of the error returned.
\<close>

theorem repository_errors_at_the_service_boundary:
  "(0 < bid \<and> validateBookUpdateRequest ureq = None \<and>
    GetByBookID repo bid s = (Inl r, s') \<and> errors_Is r ErrBookNotFound \<longrightarrow>
      BookService_GetByBookID repo bid s = (Inl ErrNotFound, s') \<and>
      BookService_UpdateBook repo bid ureq s = (Inl ErrNotFound, s') \<and>
      BookService_DeleteBook repo bid s = (Some ErrNotFound, s') \<and>
      chain ErrNotFound = [ErrNotFound]) \<and>
   (0 < bid \<and> validateBookUpdateRequest ureq = None \<and>
    GetByBookID repo bid s = (Inl r, s') \<and> generic_storage_error r \<longrightarrow>
      BookService_GetByBookID repo bid s =
        (Inl (Errorf ''repository error: '' r []), s') \<and>
      BookService_UpdateBook repo bid ureq s =
        (Inl (Errorf ''repository error: '' r []), s') \<and>
      BookService_DeleteBook repo bid s =
        (Some (Errorf ''repository error: '' r []), s')) \<and>
   (validateBookCreateRequest creq = None \<and> 5 \<le> cr_Pages creq \<and>
    CreateBook repo
      \<lparr>ID = 0, Title = cr_Title creq, Author = cr_Author creq,
       Published = cr_Published creq, ISBN = cr_ISBN creq, Pages = cr_Pages creq,
       CreatedAt = 0, UpdatedAt = 0\<rparr> s = ((Some r, bk), s') \<and>
    generic_storage_error r \<longrightarrow>
      BookService_CreateBook repo creq s =
        (Inl (Errorf ''repository error: '' r []), s')) \<and>
   (FetchAllBook repo (if page < 1 then 1 else page)
      (if pageSize < 1 \<or> 100 < pageSize then 20 else pageSize) s = (Inl r, s') \<and>
    generic_storage_error r \<longrightarrow>
      BookService_FetchAllBook repo page pageSize s =
        (Inl (Errorf ''repository error: '' r []), s')) \<and>
   (0 < bid \<and> validateBookUpdateRequest ureq = None \<and>
    GetByBookID repo bid s = (Inr book, t) \<and>
    UpdateBook repo
      \<lparr>ID = ID book,
       Title = (if ur_Title ureq \<noteq> [] then ur_Title ureq else Title book),
       Author = (if ur_Author ureq \<noteq> [] then ur_Author ureq else Author book),
       Published = Published book,
       ISBN = (if ur_ISBN ureq \<noteq> [] then ur_ISBN ureq else ISBN book),
       Pages = (if ur_Pages ureq \<le> 0 then ur_Pages ureq else Pages book),
       CreatedAt = CreatedAt book, UpdatedAt = UpdatedAt book\<rparr> t = ((Some r, bk), s') \<and>
    generic_storage_error r \<longrightarrow>
      BookService_UpdateBook repo bid ureq s =
        (Inl (Errorf ''repository error: '' r []), s')) \<and>
   (0 < bid \<and> GetByBookID repo bid s = (Inr book, t) \<and>
    DeleteBook repo bid t = (Some r, s') \<and> generic_storage_error r \<longrightarrow>
      BookService_DeleteBook repo bid s =
        (Some (Errorf ''repository error: '' r []), s')) \<and>
   r \<in> set (chain (Errorf ''repository error: '' r []))"
  by (cases book) (simp add: service_defs generic_storage_error_def chain_self Let_def)

theorem repository_errors_at_the_service_boundary_witness:
  "BookService_GetByBookID NewBookRepository 1 empty_db =
     (Inl ErrNotFound, empty_db\<lparr>clock := 101\<rparr>) \<and>
   BookService_DeleteBook NewBookRepository 1 empty_db =
     (Some ErrNotFound, empty_db\<lparr>clock := 101\<rparr>) \<and>
   BookService_GetByBookID NewBookRepository 1 down_db =
     (Inl (Errorf ''repository error: ''
             (Errorf ''failed to get book: '' DeadlineExceeded []) []),
      down_db\<lparr>clock := 102, faults := []\<rparr>) \<and>
   BookService_CreateBook NewBookRepository dune down_db =
     (Inl (Errorf ''repository error: ''
             (Errorf ''failed to create book: '' DeadlineExceeded []) []),
      down_db\<lparr>clock := 102, faults := []\<rparr>) \<and>
   BookService_CreateBook NewBookRepository no_date empty_db =
     (Inl (Errorf ''repository error: ''
             (Errorf ''failed to create book: ''
                (PgError ''22007'' ''invalid input syntax for type date'') []) []),
      empty_db\<lparr>clock := 101\<rparr>) \<and>
   BookService_FetchAllBook NewBookRepository 0 1000 down_db =
     (Inl (Errorf ''repository error: ''
             (ErrorsNew ''failed to count books: context deadline exceeded'') []),
      down_db\<lparr>clock := 102, faults := []\<rparr>) \<and>
   BookService_UpdateBook NewBookRepository 1 new_title flaky_db =
     (Inl (Errorf ''repository error: ''
             (Errorf ''failed to update book: '' DeadlineExceeded []) []),
      flaky_db\<lparr>clock := 103, faults := []\<rparr>) \<and>
   BookService_UpdateBook NewBookRepository 2 dune_isbn two_books_db =
     (Inl (Errorf ''repository error: ''
             (Errorf ''failed to update book: ''
                (PgError ''23505'' ''duplicate key value violates unique constraint'') [])
             []),
      two_books_db\<lparr>clock := 104\<rparr>) \<and>
   BookService_DeleteBook NewBookRepository 1 flaky_db =
     (Some (Errorf ''repository error: ''
              (Errorf ''failed to begin transaction: '' DeadlineExceeded []) []),
      flaky_db\<lparr>clock := 103, faults := []\<rparr>)"
proof -
  note at = repository_errors_at_the_service_boundary
  have valid: "validateBookUpdateRequest new_title = None"
    "validateBookUpdateRequest dune_isbn = None"
    "validateBookCreateRequest dune = None" "5 \<le> cr_Pages dune"
    "validateBookCreateRequest no_date = None" "5 \<le> cr_Pages no_date"
    by (simp_all add: service_defs data_defs)
  have generic:
    "generic_storage_error (Errorf ''failed to get book: '' DeadlineExceeded [])"
    "generic_storage_error (Errorf ''failed to create book: '' DeadlineExceeded [])"
    "generic_storage_error (Errorf ''failed to create book: ''
       (PgError ''22007'' ''invalid input syntax for type date'') [])"
    "generic_storage_error
       (ErrorsNew ''failed to count books: context deadline exceeded'')"
    "generic_storage_error (Errorf ''failed to update book: '' DeadlineExceeded [])"
    "generic_storage_error (Errorf ''failed to update book: ''
       (PgError ''23505'' ''duplicate key value violates unique constraint'') [])"
    "generic_storage_error (Errorf ''failed to begin transaction: '' DeadlineExceeded [])"
    by (simp_all add: generic_storage_error_def)
  have "BookService_GetByBookID NewBookRepository 1 empty_db =
          (Inl ErrNotFound, empty_db\<lparr>clock := 101\<rparr>) \<and>
        BookService_DeleteBook NewBookRepository 1 empty_db =
          (Some ErrNotFound, empty_db\<lparr>clock := 101\<rparr>)"
    using at [where bid = 1 and ureq = new_title and repo = NewBookRepository
        and s = empty_db and r = ErrBookNotFound and s' = "empty_db\<lparr>clock := 101\<rparr>"]
      valid
    by (simp add: empty_db_lookup)
  moreover have "BookService_GetByBookID NewBookRepository 1 down_db =
          (Inl (Errorf ''repository error: ''
                  (Errorf ''failed to get book: '' DeadlineExceeded []) []),
           down_db\<lparr>clock := 102, faults := []\<rparr>)"
    using at [where bid = 1 and ureq = new_title and repo = NewBookRepository
        and s = down_db and r = "Errorf ''failed to get book: '' DeadlineExceeded []"
        and s' = "down_db\<lparr>clock := 102, faults := []\<rparr>"]
      valid generic
    by (simp add: down_db_calls)
  moreover have "BookService_CreateBook NewBookRepository dune down_db =
          (Inl (Errorf ''repository error: ''
                  (Errorf ''failed to create book: '' DeadlineExceeded []) []),
           down_db\<lparr>clock := 102, faults := []\<rparr>)"
    using at [where creq = dune and repo = NewBookRepository and s = down_db
        and r = "Errorf ''failed to create book: '' DeadlineExceeded []"
        and bk = "\<lparr>ID = 0, Title = cr_Title dune, Author = cr_Author dune,
          Published = cr_Published dune, ISBN = cr_ISBN dune, Pages = cr_Pages dune,
          CreatedAt = 0, UpdatedAt = 0\<rparr>"
        and s' = "down_db\<lparr>clock := 102, faults := []\<rparr>"]
      valid generic
    by (simp add: down_db_calls)
  moreover have "BookService_CreateBook NewBookRepository no_date empty_db =
          (Inl (Errorf ''repository error: ''
                  (Errorf ''failed to create book: ''
                     (PgError ''22007'' ''invalid input syntax for type date'') []) []),
           empty_db\<lparr>clock := 101\<rparr>)"
    using at [where creq = no_date and repo = NewBookRepository and s = empty_db
        and r = "Errorf ''failed to create book: ''
                   (PgError ''22007'' ''invalid input syntax for type date'') []"
        and bk = "\<lparr>ID = 0, Title = cr_Title no_date, Author = cr_Author no_date,
          Published = cr_Published no_date, ISBN = cr_ISBN no_date,
          Pages = cr_Pages no_date, CreatedAt = 0, UpdatedAt = 0\<rparr>"
        and s' = "empty_db\<lparr>clock := 101\<rparr>"]
      valid generic
    by (simp add: no_date_call)
  moreover have "BookService_FetchAllBook NewBookRepository 0 1000 down_db =
          (Inl (Errorf ''repository error: ''
                  (ErrorsNew ''failed to count books: context deadline exceeded'') []),
           down_db\<lparr>clock := 102, faults := []\<rparr>)"
    using at [where page = 0 and pageSize = 1000 and repo = NewBookRepository
        and s = down_db
        and r = "ErrorsNew ''failed to count books: context deadline exceeded''"
        and s' = "down_db\<lparr>clock := 102, faults := []\<rparr>"]
      generic
    by (simp add: down_db_calls)
  moreover have "BookService_UpdateBook NewBookRepository 1 new_title flaky_db =
          (Inl (Errorf ''repository error: ''
                  (Errorf ''failed to update book: '' DeadlineExceeded []) []),
           flaky_db\<lparr>clock := 103, faults := []\<rparr>)"
    using at [where bid = 1 and ureq = new_title and repo = NewBookRepository
        and s = flaky_db and book = dune_book
        and t = "flaky_db\<lparr>clock := 102, faults := [Some DeadlineExceeded]\<rparr>"
        and r = "Errorf ''failed to update book: '' DeadlineExceeded []"
        and bk = "dune_book\<lparr>Title := ''New Title'', Pages := 0\<rparr>"
        and s' = "flaky_db\<lparr>clock := 103, faults := []\<rparr>"]
      valid generic
    by (simp add: flaky_db_calls new_title_def dune_book_def)
  moreover have "BookService_UpdateBook NewBookRepository 2 dune_isbn two_books_db =
          (Inl (Errorf ''repository error: ''
                  (Errorf ''failed to update book: ''
                     (PgError ''23505''
                        ''duplicate key value violates unique constraint'') []) []),
           two_books_db\<lparr>clock := 104\<rparr>)"
    using at [where bid = 2 and ureq = dune_isbn and repo = NewBookRepository
        and s = two_books_db and book = emma_book
        and t = "two_books_db\<lparr>clock := 103\<rparr>"
        and r = "Errorf ''failed to update book: ''
                   (PgError ''23505'' ''duplicate key value violates unique constraint'') []"
        and bk = "emma_book\<lparr>ISBN := ''978-0-441-01359-3'', Pages := 0\<rparr>"
        and s' = "two_books_db\<lparr>clock := 104\<rparr>"]
      valid generic dune_isbn_calls
    by (simp add: dune_isbn_def emma_book_def)
  moreover have "BookService_DeleteBook NewBookRepository 1 flaky_db =
          (Some (Errorf ''repository error: ''
                   (Errorf ''failed to begin transaction: '' DeadlineExceeded []) []),
           flaky_db\<lparr>clock := 103, faults := []\<rparr>)"
    using at [where bid = 1 and repo = NewBookRepository
        and s = flaky_db and book = dune_book
        and t = "flaky_db\<lparr>clock := 102, faults := [Some DeadlineExceeded]\<rparr>"
        and r = "Errorf ''failed to begin transaction: '' DeadlineExceeded []"
        and s' = "flaky_db\<lparr>clock := 103, faults := []\<rparr>"]
      generic
    by (simp add: flaky_db_calls)
  ultimately show ?thesis
    by simp
qed

lemma CreateBook_wraps_ErrDuplicateISBN:
  assumes "validateBookCreateRequest req = None" "5 \<le> cr_Pages req"
    and "\<And>bk. fst (fst (CreateBook repo bk s)) = Some ErrDuplicateISBN"
  shows "fst (BookService_CreateBook repo req s) =
           Inl (Errorf ''repository error: '' ErrDuplicateISBN [])"
    and "\<not> failed_as (fst (BookService_CreateBook repo req s)) ErrConflict"
proof -
  let ?book = "\<lparr>ID = 0, Title = cr_Title req, Author = cr_Author req,
      Published = cr_Published req, ISBN = cr_ISBN req, Pages = cr_Pages req,
      CreatedAt = 0, UpdatedAt = 0\<rparr>"
  obtain bk s' where call: "CreateBook repo ?book s = ((Some ErrDuplicateISBN, bk), s')"
    using assms(3) [of ?book] by (cases "CreateBook repo ?book s") auto
  show "fst (BookService_CreateBook repo req s) =
           Inl (Errorf ''repository error: '' ErrDuplicateISBN [])"
    using assms(1,2) call by (simp add: BookService_CreateBook_def)
  then show "\<not> failed_as (fst (BookService_CreateBook repo req s)) ErrConflict"
    by (simp add: failed_as_def)
qed

text \<open>
  Claim C5.  A create whose ISBN a live record holds is to fail with the kind
  \<open>ErrConflict\<close>.  In a store that holds \<open>dune\<close>, creating \<open>dune\<close> again meets the unique
  index; the repository reports \<open>ErrDuplicateISBN\<close>, and the service returns it wrapped
  as any repository error, which is no \<open>ErrConflict\<close>.
\<close>

theorem CreateBook_duplicate_isbn_is_not_ErrConflict:
  "CreateBook NewBookRepository (dune_book\<lparr>ID := 0, CreatedAt := 0, UpdatedAt := 0\<rparr>)
       dune_db =
     ((Some ErrDuplicateISBN, dune_book\<lparr>ID := 0, CreatedAt := 0, UpdatedAt := 0\<rparr>),
      dune_db\<lparr>books_id_seq := 2, clock := 102\<rparr>) \<and>
   BookService_CreateBook NewBookRepository dune dune_db =
     (Inl (Errorf ''repository error: '' ErrDuplicateISBN []),
      dune_db\<lparr>books_id_seq := 2, clock := 102\<rparr>) \<and>
   \<not> failed_as (fst (BookService_CreateBook NewBookRepository dune dune_db)) ErrConflict"
  by (simp add: service_defs store_defs repository_defs data_defs date_in_dune
      failed_as_def)

subsection \<open>Update\<close>

text \<open>
  The merge of \<^verbatim>\<open>UpdateBook\<close>, over a repository whose \<^verbatim>\<open>UpdateBook\<close> succeeds and sets
  \<open>UpdatedAt\<close>: the title, the author and the isbn are taken from the request when it
  supplies them, \<open>Published\<close> is never taken, and the pages are taken exactly when the
  request has none.
\<close>

lemma UpdateBook_merge:
  assumes "0 < bid" "validateBookUpdateRequest req = None"
    and "GetByBookID repo bid s = (Inr book, s')"
    and "\<And>bk. UpdateBook repo bk s' = ((None, bk\<lparr>UpdatedAt := u\<rparr>), s'')"
  shows "BookService_UpdateBook repo bid req s =
           (Inr \<lparr>ID = ID book,
                 Title = (if ur_Title req \<noteq> [] then ur_Title req else Title book),
                 Author = (if ur_Author req \<noteq> [] then ur_Author req else Author book),
                 Published = Published book,
                 ISBN = (if ur_ISBN req \<noteq> [] then ur_ISBN req else ISBN book),
                 Pages = (if ur_Pages req \<le> 0 then ur_Pages req else Pages book),
                 CreatedAt = CreatedAt book, UpdatedAt = u\<rparr>, s'')"
  using assms by (simp add: BookService_UpdateBook_def Let_def)

lemma UpdateBook_omitted_pages_become_0:
  assumes "0 < bid" "validateBookUpdateRequest req = None" "ur_Pages req = 0"
    and "GetByBookID repo bid s = (Inr book, s')"
    and "\<And>bk. UpdateBook repo bk s' = ((None, bk\<lparr>UpdatedAt := u\<rparr>), s'')"
  shows "\<exists>b. fst (BookService_UpdateBook repo bid req s) = Inr b \<and> Pages b = 0"
  using UpdateBook_merge [OF assms(1,2,4,5)] assms(3) by simp

lemma UpdateBook_supplied_pages_are_ignored:
  assumes "0 < bid" "validateBookUpdateRequest req = None" "0 < ur_Pages req"
    and "GetByBookID repo bid s = (Inr book, s')"
    and "\<And>bk. UpdateBook repo bk s' = ((None, bk\<lparr>UpdatedAt := u\<rparr>), s'')"
  shows "\<exists>b. fst (BookService_UpdateBook repo bid req s) = Inr b \<and> Pages b = Pages book"
  using UpdateBook_merge [OF assms(1,2,4,5)] assms(3) by simp

text \<open>
  Claim C3.  An update is to merge the supplied fields only: with a new title alone,
  title and \<open>updated_at\<close> change and author, isbn, pages and published stay.  For
  \<open>new_title\<close> on the store that holds \<open>dune\<close> (412 pages) the service returns, and the
  store keeps, a book of 0 pages: the merge copies \<^verbatim>\<open>req.Pages\<close> when it is \<open>\<le> 0\<close>.
\<close>

theorem UpdateBook_title_only_sets_pages_to_0:
  "BookService_UpdateBook NewBookRepository 1 new_title dune_db =
     (Inr (dune_book\<lparr>Title := ''New Title'', Pages := 0, UpdatedAt := 103\<rparr>),
      dune_db\<lparr>rows_of := [dune_row\<lparr>title := ''New Title'', pages := 0,
                                     updated_at := 103\<rparr>],
              clock := 103\<rparr>) \<and>
   Pages dune_book = 412"
  by (simp add: service_defs store_defs repository_defs data_defs date_in_dune)

subsection \<open>Delete and the deleted\<close>

lemma DeleteBook_removes_every_row_of_the_id:
  assumes "faults db = []" "list_ex (\<lambda>r. row_id r = bid) (rows_of db)"
  shows "fst (BookRepository_DeleteBook bid db) = None"
    and "rows_of (snd (BookRepository_DeleteBook bid db)) =
           filter (\<lambda>r. row_id r \<noteq> bid) (rows_of db)"
proof -
  from assms(2) have "filter (\<lambda>r. row_id r = bid) (rows_of db) \<noteq> []"
    by (simp add: list_ex_iff filter_empty_conv)
  then show "fst (BookRepository_DeleteBook bid db) = None"
    and "rows_of (snd (BookRepository_DeleteBook bid db)) =
           filter (\<lambda>r. row_id r \<noteq> bid) (rows_of db)"
    using assms(1)
    by (simp_all add: BookRepository_DeleteBook_def pool_Begin_def delete_book_def
        tx_Commit_def round_trip_def)
qed

lemma DeleteBook_of_no_row:
  assumes "faults db = []" "\<not> list_ex (\<lambda>r. row_id r = bid) (rows_of db)"
  shows "fst (BookRepository_DeleteBook bid db) = Some ErrBookNotFound"
    and "rows_of (snd (BookRepository_DeleteBook bid db)) = rows_of db"
proof -
  from assms(2) have "filter (\<lambda>r. row_id r = bid) (rows_of db) = []"
    by (simp add: list_ex_iff filter_empty_conv)
  then show "fst (BookRepository_DeleteBook bid db) = Some ErrBookNotFound"
    and "rows_of (snd (BookRepository_DeleteBook bid db)) = rows_of db"
    using assms(1)
    by (simp_all add: BookRepository_DeleteBook_def pool_Begin_def delete_book_def
        tx_Rollback_def round_trip_def)
qed

lemma DeleteBook_failure_rolls_back:
  assumes "fst (BookRepository_DeleteBook bid db) = Some e"
  shows "rows_of (snd (BookRepository_DeleteBook bid db)) = rows_of db"
  using assms
  by (auto simp: BookRepository_DeleteBook_def pool_Begin_def delete_book_def tx_Rollback_def
      tx_Commit_def round_trip_def split: list.splits option.splits if_splits)

lemma part_001_DeleteBook_marks_and_reports_not_found:
  assumes "faults db = []"
  shows "fst (BookRepository_DeleteBook_part_001 bid db) = Some ErrBookNotFound"
    and "rows_of (snd (BookRepository_DeleteBook_part_001 bid db)) =
           map (\<lambda>r. if row_id r = bid \<and> deleted_at r = None
                     then r\<lparr>deleted_at := Some (clock db + 1)\<rparr> else r) (rows_of db)"
  using assms
  by (simp_all add: BookRepository_DeleteBook_part_001_def mark_book_deleted_def
      round_trip_def QueryRow_Scan_def live_def)

text \<open>
  Claim C1.  \<^verbatim>\<open>DeleteBook\<close> of the repository is to set \<open>deleted_at\<close> on the live row and
  keep the row, in a transaction committed when one row was affected, and no path is
  to remove a row.  On the store that holds \<open>dune\<close>, \<^verbatim>\<open>DeleteBook\<close> of
  \<^verbatim>\<open>book_repository.go\<close> succeeds and leaves no row; \<^verbatim>\<open>DeleteBook\<close> of \<^verbatim>\<open>part_001\<close> keeps
  the row and sets its \<open>deleted_at\<close>, and reports \<open>ErrBookNotFound\<close>.
\<close>

theorem DeleteBook_removes_the_row:
  "BookRepository_DeleteBook 1 dune_db = (None, dune_db\<lparr>rows_of := [], clock := 104\<rparr>) \<and>
   BookRepository_DeleteBook_part_001 1 dune_db =
     (Some ErrBookNotFound,
      dune_db\<lparr>rows_of := [dune_row\<lparr>deleted_at := Some 102\<rparr>], clock := 102\<rparr>)"
  by (simp add: store_defs repository_defs part_001_defs data_defs)

lemma part_001_GetByBookID_ignores_its_argument:
  "BookRepository_GetByBookID_part_001 bid db = BookRepository_GetByBookID_part_001 bid' db"
  by (simp add: BookRepository_GetByBookID_part_001_def)

lemma QueryRow_Scan_InrD:
  assumes "QueryRow_Scan (Inr (filter P rows)) = Inr r"
  shows "r \<in> set rows" and "P r"
proof -
  from assms obtain rs where "filter P rows = r # rs"
    by (auto simp: QueryRow_Scan_def split: list.splits)
  then have "r \<in> set (filter P rows)" by simp
  then show "r \<in> set rows" and "P r" by simp_all
qed

lemma part_001_GetByBookID_never_a_deleted_row:
  assumes "fst (BookRepository_GetByBookID_part_001 bid db) = Inr b"
  shows "\<exists>r \<in> set (rows_of db). deleted_at r = None \<and> rows_Scan_part_001 r = Inr b"
proof -
  from assms obtain r where
    "QueryRow_Scan (Inr (filter (\<lambda>r. row_id r = 0 \<and> live r) (rows_of db))) = Inr r"
    "rows_Scan_part_001 r = Inr b"
    by (auto simp: BookRepository_GetByBookID_part_001_def select_book_by_id_def round_trip_def
        zero_Book_def QueryRow_Scan_def split: list.splits option.splits sum.splits if_splits)
  then show ?thesis
    using QueryRow_Scan_InrD [of "\<lambda>r. row_id r = 0 \<and> live r" "rows_of db" r]
    by (auto simp: live_def)
qed

lemma part_001_GetByBookID_finds_nothing:
  assumes "well_formed db" "faults db = []"
  shows "fst (BookRepository_GetByBookID_part_001 bid db) = Inl ErrBookNotFound"
  using assms no_row_0 [of "books_id_seq db" "rows_of db" live]
  by (simp add: BookRepository_GetByBookID_part_001_def select_book_by_id_def round_trip_def
      zero_Book_def QueryRow_Scan_def well_formed_def)


lemma scan_books_part_001_from_rows:
  assumes "scan_books_part_001 rs acc = Inr bs"
  shows "set bs \<subseteq> set acc \<union> {b. \<exists>r \<in> set rs. rows_Scan_part_001 r = Inr b}"
  using assms
proof (induction rs arbitrary: acc)
  case Nil
  then show ?case by auto
next
  case (Cons r rs)
  from Cons.prems obtain b where b: "rows_Scan_part_001 r = Inr b"
    and rest: "scan_books_part_001 rs (acc @ [b]) = Inr bs"
    by (auto split: sum.splits)
  from Cons.IH [OF rest] b show ?case by auto
qed

lemma page_of_live_rows:
  "set (take n (drop k (sort_key f (filter live rows)))) \<subseteq> {r \<in> set rows. live r}"
proof -
  have "set (take n (drop k (sort_key f (filter live rows)))) \<subseteq>
      set (sort_key f (filter live rows))"
    by (meson order_trans set_take_subset set_drop_subset)
  then show ?thesis by auto
qed

lemma part_001_FetchAllBook_lists_live_rows_only:
  assumes "fst (BookRepository_FetchAllBook_part_001 page pageSize db) = Inr (bs, n)"
  shows "n = int (length (filter live (rows_of db)))"
    and "set bs \<subseteq> {b. \<exists>r \<in> set (rows_of db). deleted_at r = None \<and>
                          rows_Scan_part_001 r = Inr b}"
proof -
  let ?off = "wrap64 (wrap64 (page - 1) * pageSize)"
  let ?page = "take (nat pageSize) (drop (nat ?off)
      (sort_key (\<lambda>r. - int (created_at r)) (filter live (rows_of db))))"
  from assms have n: "n = int (length (filter live (rows_of db)))"
    and scan: "scan_books_part_001 ?page [] = Inr bs"
    by (auto simp: BookRepository_FetchAllBook_part_001_def pool_Begin_def count_books_def
        select_books_page_def tx_Commit_def tx_Rollback_def round_trip_def QueryRow_Scan_def
        Let_def split: list.splits option.splits sum.splits if_splits prod.splits)
  show "n = int (length (filter live (rows_of db)))" by (rule n)
  from scan_books_part_001_from_rows [OF scan] page_of_live_rows
  show "set bs \<subseteq> {b. \<exists>r \<in> set (rows_of db). deleted_at r = None \<and>
                          rows_Scan_part_001 r = Inr b}"
    by (fastforce simp: live_def)
qed

lemma part_001_UpdateBook_of_deleted_row:
  assumes "\<not> list_ex (\<lambda>r. row_id r = ID book \<and> live r) (rows_of db)"
  shows "fst (fst (BookRepository_UpdateBook_part_001 book db)) \<noteq> None"
    and "rows_of (snd (BookRepository_UpdateBook_part_001 book db)) = rows_of db"
    and "faults db = [] \<Longrightarrow> date_in (Published book) \<noteq> None \<Longrightarrow>
         fst (fst (BookRepository_UpdateBook_part_001 book db)) = Some ErrBookNotFound"
proof -
  from assms have none: "filter (\<lambda>r. row_id r = ID book \<and> live r) (rows_of db) = []"
    and same: "map (\<lambda>r. if row_id r = ID book \<and> live r then g r else r) (rows_of db) =
      rows_of db" for g
    by (auto simp: list_ex_iff filter_empty_conv intro!: map_idI)
  show "fst (fst (BookRepository_UpdateBook_part_001 book db)) \<noteq> None"
    and "rows_of (snd (BookRepository_UpdateBook_part_001 book db)) = rows_of db"
    and "faults db = [] \<Longrightarrow> date_in (Published book) \<noteq> None \<Longrightarrow>
         fst (fst (BookRepository_UpdateBook_part_001 book db)) = Some ErrBookNotFound"
    using none same assms
    by (auto simp: BookRepository_UpdateBook_part_001_def update_book_def round_trip_def
        QueryRow_Scan_def Let_def split: list.splits option.splits if_splits)
qed

lemma round_trip_rows_of: "rows_of (snd (round_trip db)) = rows_of db"
  by (simp add: round_trip_def split: list.splits)

lemma scan_of_row: "rows_Scan_part_001 r = Inr b \<Longrightarrow> ID b = row_id r"
  by (auto simp: rows_Scan_part_001_def)

lemma live_row_has_another_id:
  assumes "r \<in> set rows" "deleted_at r \<noteq> None" "distinct (map row_id rows)"
    and "r' \<in> set rows" "deleted_at r' = None"
  shows "row_id r' \<noteq> row_id r"
proof
  assume "row_id r' = row_id r"
  with assms(1,3,4) have "r' = r"
    by (meson distinct_map inj_onD)
  with assms(2,5) show False by simp
qed

lemma part_001_GetByBookID_not_the_deleted_row:
  assumes "r \<in> set (rows_of db)" "deleted_at r \<noteq> None" "distinct (map row_id (rows_of db))"
    and "fst (BookRepository_GetByBookID_part_001 bid db) = Inr b"
  shows "ID b \<noteq> row_id r"
proof -
  from part_001_GetByBookID_never_a_deleted_row [OF assms(4)]
  obtain r' where "r' \<in> set (rows_of db)" "deleted_at r' = None"
    "rows_Scan_part_001 r' = Inr b"
    by blast
  with live_row_has_another_id [OF assms(1-3)] scan_of_row show ?thesis
    by metis
qed

lemma part_001_FetchAllBook_not_the_deleted_row:
  assumes "r \<in> set (rows_of db)" "deleted_at r \<noteq> None" "distinct (map row_id (rows_of db))"
    and "fst (BookRepository_FetchAllBook_part_001 page pageSize db) = Inr (bs, n)"
  shows "n = int (length (filter live (rows_of db)))"
    and "n < int (length (rows_of db))"
    and "\<forall>b \<in> set bs. ID b \<noteq> row_id r"
proof -
  note listed = part_001_FetchAllBook_lists_live_rows_only [OF assms(4)]
  show n: "n = int (length (filter live (rows_of db)))"
    by (rule listed(1))
  have "length (filter live (rows_of db)) < length (rows_of db)"
    using assms(1,2) by (intro length_filter_less [of r]) (simp_all add: live_def)
  with n show "n < int (length (rows_of db))" by simp
  show "\<forall>b \<in> set bs. ID b \<noteq> row_id r"
  proof
    fix b assume "b \<in> set bs"
    with listed(2) obtain r' where "r' \<in> set (rows_of db)" "deleted_at r' = None"
      "rows_Scan_part_001 r' = Inr b"
      by blast
    with live_row_has_another_id [OF assms(1-3)] scan_of_row show "ID b \<noteq> row_id r"
      by metis
  qed
qed

lemma part_001_UpdateBook_not_the_deleted_row:
  assumes "r \<in> set (rows_of db)" "deleted_at r \<noteq> None" "distinct (map row_id (rows_of db))"
    and "ID book = row_id r"
  shows "fst (fst (BookRepository_UpdateBook_part_001 book db)) \<noteq> None"
    and "rows_of (snd (BookRepository_UpdateBook_part_001 book db)) = rows_of db"
    and "faults db = [] \<Longrightarrow> date_in (Published book) \<noteq> None \<Longrightarrow>
         fst (fst (BookRepository_UpdateBook_part_001 book db)) = Some ErrBookNotFound"
proof -
  have "\<not> list_ex (\<lambda>r'. row_id r' = ID book \<and> live r') (rows_of db)"
    using live_row_has_another_id [OF assms(1-3)] assms(4)
    by (auto simp: list_ex_iff live_def)
  from part_001_UpdateBook_of_deleted_row [OF this]
  show "fst (fst (BookRepository_UpdateBook_part_001 book db)) \<noteq> None"
    and "rows_of (snd (BookRepository_UpdateBook_part_001 book db)) = rows_of db"
    and "faults db = [] \<Longrightarrow> date_in (Published book) \<noteq> None \<Longrightarrow>
         fst (fst (BookRepository_UpdateBook_part_001 book db)) = Some ErrBookNotFound"
    by blast+
qed

lemma part_001_service_finds_nothing:
  assumes "r \<in> set (rows_of db)" "well_formed db" "faults db = []"
  shows "fst (BookRepository_GetByBookID_part_001 (row_id r) db) = Inl ErrBookNotFound"
    and "fst (BookService_GetByBookID NewBookRepository_part_001 (row_id r) db) =
           Inl ErrNotFound"
    and "validateBookUpdateRequest req = None \<Longrightarrow>
         fst (BookService_UpdateBook NewBookRepository_part_001 (row_id r) req db) =
           Inl ErrNotFound"
proof -
  from assms(1,2) have pos: "0 < row_id r"
    by (auto simp: well_formed_def list_all_iff)
  show lookup: "fst (BookRepository_GetByBookID_part_001 (row_id r) db) = Inl ErrBookNotFound"
    using assms(2,3) by (rule part_001_GetByBookID_finds_nothing)
  show "fst (BookService_GetByBookID NewBookRepository_part_001 (row_id r) db) =
           Inl ErrNotFound"
    using pos lookup
    by (auto simp: BookService_GetByBookID_def NewBookRepository_part_001_def
        split: prod.splits sum.splits)
  show "validateBookUpdateRequest req = None \<Longrightarrow>
         fst (BookService_UpdateBook NewBookRepository_part_001 (row_id r) req db) =
           Inl ErrNotFound"
    using pos lookup
    by (auto simp: BookService_UpdateBook_def NewBookRepository_part_001_def
        split: prod.splits sum.splits)
qed

lemma BookRepository_keeps_rows_live:
  assumes "list_all live (rows_of db)"
  shows "list_all live (rows_of (snd (BookRepository_CreateBook book db)))"
    and "list_all live (rows_of (snd (BookRepository_UpdateBook book db)))"
    and "list_all live (rows_of (snd (BookRepository_DeleteBook bid db)))"
    and "rows_of (snd (BookRepository_GetByBookID bid db)) = rows_of db"
    and "rows_of (snd (BookRepository_FetchAllBook page pageSize db)) = rows_of db"
proof -
  show "list_all live (rows_of (snd (BookRepository_CreateBook book db)))"
    using assms
    by (auto simp: BookRepository_CreateBook_def insert_book_def round_trip_def
        QueryRow_Scan_def Let_def live_def
        split: list.splits option.splits sum.splits if_splits prod.splits)
  show "list_all live (rows_of (snd (BookRepository_UpdateBook book db)))"
    using assms
    by (auto simp: BookRepository_UpdateBook_def update_book_def round_trip_def
        QueryRow_Scan_def Let_def live_def list_all_iff
        split: list.splits option.splits sum.splits if_splits prod.splits)
  show "list_all live (rows_of (snd (BookRepository_DeleteBook bid db)))"
    using assms
    by (auto simp: BookRepository_DeleteBook_def pool_Begin_def delete_book_def
        tx_Rollback_def tx_Commit_def round_trip_def list_all_iff
        split: list.splits option.splits sum.splits if_splits prod.splits)
  show "rows_of (snd (BookRepository_GetByBookID bid db)) = rows_of db"
    by (auto simp: BookRepository_GetByBookID_def select_book_by_id_def round_trip_def
        QueryRow_Scan_def rows_Scan_def
        split: list.splits option.splits sum.splits if_splits prod.splits)
  show "rows_of (snd (BookRepository_FetchAllBook page pageSize db)) = rows_of db"
    by (auto simp: BookRepository_FetchAllBook_def count_books_def select_books_page_def
        round_trip_def QueryRow_Scan_def Let_def
        split: list.splits option.splits sum.splits if_splits prod.splits)
qed

lemma mixed_db_facts:
  "dune_row\<lparr>deleted_at := Some 103\<rparr> \<in> set (rows_of mixed_db)"
  "deleted_at (dune_row\<lparr>deleted_at := Some 103\<rparr>) \<noteq> None"
  "row_id (dune_row\<lparr>deleted_at := Some 103\<rparr>) = 1"
  "distinct (map row_id (rows_of mixed_db))"
  "well_formed mixed_db" "faults mixed_db = []"
  "fst (BookRepository_FetchAllBook_part_001 1 20 mixed_db) = Inr ([emma_book], 1)"
  "ID dune_book = 1" "date_in (Published dune_book) \<noteq> None"
  "validateBookUpdateRequest new_title = None"
  "list_all live (rows_of two_books_db)"
  by (simp_all add: store_defs part_001_defs repository_defs data_defs
      well_formed_def date_in_dune validateBookUpdateRequest_def)

text \<open>
  Claim C2.  A record whose \<open>deleted_at\<close> is set is never returned by a read or a list,
  and an update of it fails as not found.  The repository of \<^verbatim>\<open>part_001\<close> is the one
  that sets \<open>deleted_at\<close>.  For a row \<open>r\<close> of its store whose \<open>deleted_at\<close> is set, the ids
  of the table being distinct: no \<^verbatim>\<open>GetByBookID\<close> returns the record, and on a well-formed
  store that answers \<^verbatim>\<open>GetByBookID\<close> of its id is \<open>ErrBookNotFound\<close> (\<open>ErrNotFound\<close> at the
  service); \<^verbatim>\<open>FetchAllBook\<close> reports the number of live rows, which is less than the
  number of rows, and lists no book of that id; \<^verbatim>\<open>UpdateBook\<close> of a book of that id
  fails and changes no row, with \<open>ErrBookNotFound\<close> when the store answers and the date
  is one, and the service's \<^verbatim>\<open>UpdateBook\<close> of a valid request fails with \<open>ErrNotFound\<close>.
  The repository of \<^verbatim>\<open>book_repository.go\<close> never sets \<open>deleted_at\<close>: its reads change
  no row and its writes leave every row live when every row was, so no store of its
  own holds such a record.
\<close>

theorem deleted_records_are_never_read:
  "(r \<in> set (rows_of db) \<and> deleted_at r \<noteq> None \<and> distinct (map row_id (rows_of db)) \<longrightarrow>
      (\<forall>b. fst (BookRepository_GetByBookID_part_001 bid db) = Inr b \<longrightarrow> ID b \<noteq> row_id r) \<and>
      (\<forall>bs n. fst (BookRepository_FetchAllBook_part_001 page pageSize db) = Inr (bs, n) \<longrightarrow>
         n = int (length (filter live (rows_of db))) \<and> n < int (length (rows_of db)) \<and>
         (\<forall>b \<in> set bs. ID b \<noteq> row_id r)) \<and>
      (ID book = row_id r \<longrightarrow>
         fst (fst (BookRepository_UpdateBook_part_001 book db)) \<noteq> None \<and>
         rows_of (snd (BookRepository_UpdateBook_part_001 book db)) = rows_of db \<and>
         (faults db = [] \<and> date_in (Published book) \<noteq> None \<longrightarrow>
            fst (fst (BookRepository_UpdateBook_part_001 book db)) = Some ErrBookNotFound)) \<and>
      (well_formed db \<and> faults db = [] \<longrightarrow>
         fst (BookRepository_GetByBookID_part_001 (row_id r) db) = Inl ErrBookNotFound \<and>
         fst (BookService_GetByBookID NewBookRepository_part_001 (row_id r) db) =
           Inl ErrNotFound \<and>
         (validateBookUpdateRequest req = None \<longrightarrow>
            fst (BookService_UpdateBook NewBookRepository_part_001 (row_id r) req db) =
              Inl ErrNotFound))) \<and>
   (list_all live (rows_of st) \<longrightarrow>
      list_all live (rows_of (snd (BookRepository_CreateBook book st))) \<and>
      list_all live (rows_of (snd (BookRepository_UpdateBook book st))) \<and>
      list_all live (rows_of (snd (BookRepository_DeleteBook bid st))) \<and>
      rows_of (snd (BookRepository_GetByBookID bid st)) = rows_of st \<and>
      rows_of (snd (BookRepository_FetchAllBook page pageSize st)) = rows_of st)"
proof (intro conjI impI)
  assume live: "list_all live (rows_of st)"
  from BookRepository_keeps_rows_live [OF live]
  show "list_all live (rows_of (snd (BookRepository_CreateBook book st)))"
    and "list_all live (rows_of (snd (BookRepository_UpdateBook book st)))"
    and "list_all live (rows_of (snd (BookRepository_DeleteBook bid st)))"
    and "rows_of (snd (BookRepository_GetByBookID bid st)) = rows_of st"
    and "rows_of (snd (BookRepository_FetchAllBook page pageSize st)) = rows_of st"
    by blast+
next
  assume "r \<in> set (rows_of db) \<and> deleted_at r \<noteq> None \<and> distinct (map row_id (rows_of db))"
  then have r: "r \<in> set (rows_of db)" "deleted_at r \<noteq> None"
    "distinct (map row_id (rows_of db))"
    by simp_all
  show "\<forall>b. fst (BookRepository_GetByBookID_part_001 bid db) = Inr b \<longrightarrow> ID b \<noteq> row_id r"
    using part_001_GetByBookID_not_the_deleted_row [OF r] by blast
  show "\<forall>bs n. fst (BookRepository_FetchAllBook_part_001 page pageSize db) = Inr (bs, n) \<longrightarrow>
         n = int (length (filter live (rows_of db))) \<and> n < int (length (rows_of db)) \<and>
         (\<forall>b \<in> set bs. ID b \<noteq> row_id r)"
    using part_001_FetchAllBook_not_the_deleted_row [OF r] by blast
  {
    assume "ID book = row_id r"
    note upd = part_001_UpdateBook_not_the_deleted_row [OF r this]
    show "fst (fst (BookRepository_UpdateBook_part_001 book db)) \<noteq> None"
      by (rule upd(1))
    show "rows_of (snd (BookRepository_UpdateBook_part_001 book db)) = rows_of db"
      by (rule upd(2))
    assume "faults db = [] \<and> date_in (Published book) \<noteq> None"
    then show "fst (fst (BookRepository_UpdateBook_part_001 book db)) = Some ErrBookNotFound"
      using upd(3) by blast
  }
  {
    assume "well_formed db \<and> faults db = []"
    then have "well_formed db" "faults db = []" by simp_all
    note svc = part_001_service_finds_nothing [OF r(1) this]
    show "fst (BookRepository_GetByBookID_part_001 (row_id r) db) = Inl ErrBookNotFound"
      by (rule svc(1))
    show "fst (BookService_GetByBookID NewBookRepository_part_001 (row_id r) db) =
           Inl ErrNotFound"
      by (rule svc(2))
    assume "validateBookUpdateRequest req = None"
    then show "fst (BookService_UpdateBook NewBookRepository_part_001 (row_id r) req db) =
              Inl ErrNotFound"
      by (rule svc(3))
  }
qed

theorem deleted_records_are_never_read_witness:
  "dune_row\<lparr>deleted_at := Some 103\<rparr> \<in> set (rows_of mixed_db) \<and>
   fst (BookRepository_GetByBookID_part_001 1 mixed_db) = Inl ErrBookNotFound \<and>
   fst (BookService_GetByBookID NewBookRepository_part_001 1 mixed_db) = Inl ErrNotFound \<and>
   fst (BookService_UpdateBook NewBookRepository_part_001 1 new_title mixed_db) =
     Inl ErrNotFound \<and>
   fst (BookRepository_FetchAllBook_part_001 1 20 mixed_db) = Inr ([emma_book], 1) \<and>
   ID emma_book \<noteq> 1 \<and>
   fst (fst (BookRepository_UpdateBook_part_001 dune_book mixed_db)) = Some ErrBookNotFound \<and>
   list_all live (rows_of (snd (BookRepository_DeleteBook 1 two_books_db)))"
proof -
  note f = mixed_db_facts
  note at = deleted_records_are_never_read [where r = "dune_row\<lparr>deleted_at := Some 103\<rparr>" and db = mixed_db
      and page = 1 and pageSize = 20 and book = dune_book and req = new_title
      and st = two_books_db and bid = 1]
  from at f(1,2,4) have part: 
    "\<forall>bs n. fst (BookRepository_FetchAllBook_part_001 1 20 mixed_db) = Inr (bs, n) \<longrightarrow>
       (\<forall>b \<in> set bs. ID b \<noteq> row_id (dune_row\<lparr>deleted_at := Some 103\<rparr>))"
    "ID dune_book = row_id (dune_row\<lparr>deleted_at := Some 103\<rparr>) \<longrightarrow>
       (faults mixed_db = [] \<and> date_in (Published dune_book) \<noteq> None \<longrightarrow>
        fst (fst (BookRepository_UpdateBook_part_001 dune_book mixed_db)) =
          Some ErrBookNotFound)"
    "well_formed mixed_db \<and> faults mixed_db = [] \<longrightarrow>
       fst (BookRepository_GetByBookID_part_001
              (row_id (dune_row\<lparr>deleted_at := Some 103\<rparr>)) mixed_db) =
         Inl ErrBookNotFound \<and>
       fst (BookService_GetByBookID NewBookRepository_part_001
              (row_id (dune_row\<lparr>deleted_at := Some 103\<rparr>)) mixed_db) = Inl ErrNotFound \<and>
       (validateBookUpdateRequest new_title = None \<longrightarrow>
        fst (BookService_UpdateBook NewBookRepository_part_001
               (row_id (dune_row\<lparr>deleted_at := Some 103\<rparr>)) new_title mixed_db) =
          Inl ErrNotFound)"
    by blast+
  from at f(11) have named: "list_all live (rows_of (snd (BookRepository_DeleteBook 1 two_books_db)))"
    by blast
  from part(1) f(7) have "ID emma_book \<noteq> row_id (dune_row\<lparr>deleted_at := Some 103\<rparr>)"
    by simp
  with part(2,3) named f show ?thesis
    by simp
qed

subsection \<open>Create, then read\<close>

lemma create_then_get_round_trip:
  assumes wf: "well_formed db" and up: "faults db = []"
    and layout: "layout_2006_01_02 (cr_Published req)"
    and created: "BookService_CreateBook NewBookRepository req db = (Inr b, db')"
  shows "BookService_GetByBookID NewBookRepository (ID b) db' =
           (Inr b, db'\<lparr>clock := clock db' + 1\<rparr>)"
    and "clock db < CreatedAt b" and "clock db < UpdatedAt b"
    and "Title b = cr_Title req" and "Author b = cr_Author req"
    and "Published b = cr_Published req" and "ISBN b = cr_ISBN req"
    and "Pages b = cr_Pages req"
proof -
  from created obtain d where d: "date_in (cr_Published req) = Some d"
    by (auto simp: service_defs store_defs repository_defs up
        split: option.splits if_splits)
  have fmt: "Format_2006_01_02 d = cr_Published req"
    using layout d by (rule date_round_trip)
  let ?new = "books_id_seq db + 1"
  let ?now = "clock db + 1"
  from created have b: "b = \<lparr>ID = ?new, Title = cr_Title req, Author = cr_Author req,
      Published = cr_Published req, ISBN = cr_ISBN req, Pages = cr_Pages req,
      CreatedAt = ?now, UpdatedAt = ?now\<rparr>"
    and db': "db' = db\<lparr>clock := ?now, books_id_seq := ?new,
      rows_of := rows_of db @ [\<lparr>row_id = ?new, title = cr_Title req, author = cr_Author req,
        published = d, isbn = cr_ISBN req, pages = cr_Pages req, created_at = ?now,
        updated_at = ?now, deleted_at = None\<rparr>]\<rparr>"
    by (auto simp: service_defs store_defs BookRepository_CreateBook_def NewBookRepository_def
        Let_def up d split: option.splits if_splits)
  from wf have pos: "0 < ?new"
    and old: "filter (\<lambda>r. row_id r = ?new) (rows_of db) = []"
    by (auto simp: well_formed_def intro: no_row_beyond_the_sequence)
  show "BookService_GetByBookID NewBookRepository (ID b) db' =
           (Inr b, db'\<lparr>clock := clock db' + 1\<rparr>)"
    using pos old
    by (simp add: b db' BookService_GetByBookID_def NewBookRepository_def
        BookRepository_GetByBookID_def select_book_by_id_def round_trip_def QueryRow_Scan_def
        rows_Scan_def up fmt)
  show "clock db < CreatedAt b" "clock db < UpdatedAt b" "Title b = cr_Title req"
    "Author b = cr_Author req" "Published b = cr_Published req" "ISBN b = cr_ISBN req"
    "Pages b = cr_Pages req"
    by (simp_all add: b)
qed


lemma create_succeeds:
  assumes "faults db = []" "validateBookCreateRequest req = None" "5 \<le> cr_Pages req"
    "date_in (cr_Published req) = Some d"
    "\<not> list_ex (\<lambda>r. live r \<and> isbn r = cr_ISBN req) (rows_of db)"
  shows "\<exists>b db'. BookService_CreateBook NewBookRepository req db = (Inr b, db')"
  using assms
  by (simp add: BookService_CreateBook_def NewBookRepository_def BookRepository_CreateBook_def
      insert_book_def round_trip_def QueryRow_Scan_def Let_def)

lemma create_then_get_dune:
  "BookService_GetByBookID NewBookRepository (ID dune_book) dune_db =
     (Inr dune_book, dune_db\<lparr>clock := clock dune_db + 1\<rparr>)"
proof -
  have "well_formed empty_db" "faults empty_db = []" "layout_2006_01_02 (cr_Published dune)"
    by (simp_all add: well_formed_def layout_2006_01_02_def digit_of_def data_defs)
  then show ?thesis
    using dune_db_is_created by (rule create_then_get_round_trip(1))
qed

text \<open>
  Claim C4.  Creating a book and reading it by the id returned is to succeed and give
  the book back.  Over the repository of \<^verbatim>\<open>part_001\<close>, creating \<open>dune\<close> in the empty
  store returns the book with id 1, and \<^verbatim>\<open>GetByBookID\<close> of that id returns
  \<open>ErrNotFound\<close>: the query is run with \<^verbatim>\<open>book.ID\<close>, which is 0.
\<close>

theorem create_then_get_part_001_is_ErrNotFound:
  "BookService_CreateBook NewBookRepository_part_001 dune empty_db =
     (Inr dune_book, dune_db) \<and>
   BookService_GetByBookID NewBookRepository_part_001 (ID dune_book) dune_db =
     (Inl ErrNotFound, dune_db\<lparr>clock := 102\<rparr>)"
  by (simp add: service_defs store_defs repository_defs part_001_defs data_defs
      date_in_dune)

end
